theory Spec2Isabelle
  imports
    Main
    "HOL-Library.Char_ord"
    "HOL-Library.List_Lexorder"
    "HOL-Library.Option_ord"
    "HOL-Library.Multiset"
begin

section \<open>Announcements endpoints (backend/routers/announcements.py)\<close>

text \<open>
  The router holds five request handlers over two document collections,
  \<^verbatim>\<open>announcements_collection\<close> and \<^verbatim>\<open>teachers_collection\<close>. Each handler is
  embedded as a function from the state of the two collections to a result and the state
  afterwards. An exception raised by a handler is the \<open>Inl\<close> branch of its result.

  Strings are compared as the document store compares them: byte by byte, a proper
  prefix being smaller (the order of \<open>HOL-Library.List_Lexorder\<close> over
  \<open>HOL-Library.Char_ord\<close>). A field that is missing sorts before every string, as a
  null does in the store (the order of \<open>HOL-Library.Option_ord\<close>).
\<close>

subsection \<open>Documents and collections\<close>

text \<open>
  A stored document is its \<^verbatim>\<open>_id\<close> and its other fields, a dictionary from field names
  to strings: every value the handlers write is a string. A collection is the list of its
  documents in insertion order.
\<close>

record 'i doc =
  doc_id :: 'i
  doc_fields :: "string \<rightharpoonup> string"

record 'oid db =
  announcements_collection :: "'oid doc list"
  teachers_collection :: "string doc list"

text \<open>The filter documents the handlers pass to the store.\<close>

datatype 'i query =
    All_docs                      \<comment> \<open>\<^verbatim>\<open>find()\<close>\<close>
  | Id_eq 'i                      \<comment> \<open>\<^verbatim>\<open>{"_id": v}\<close>\<close>
  | Exists string bool            \<comment> \<open>\<^verbatim>\<open>{f: {"$exists": b}}\<close>\<close>
  | Lte string string             \<comment> \<open>\<^verbatim>\<open>{f: {"$lte": v}}\<close>\<close>
  | Gte string string             \<comment> \<open>\<^verbatim>\<open>{f: {"$gte": v}}\<close>\<close>
  | Or_q "'i query" "'i query"    \<comment> \<open>\<^verbatim>\<open>{"$or": [q1, q2]}\<close>\<close>
  | And_q "'i query" "'i query"   \<comment> \<open>two keys of one filter document\<close>

fun matches :: "'i query \<Rightarrow> 'i doc \<Rightarrow> bool" where
  "matches All_docs d = True"
| "matches (Id_eq i) d = (doc_id d = i)"
| "matches (Exists f b) d = ((doc_fields d f \<noteq> None) = b)"
| "matches (Lte f v) d = (case doc_fields d f of None \<Rightarrow> False | Some x \<Rightarrow> x \<le> v)"
| "matches (Gte f v) d = (case doc_fields d f of None \<Rightarrow> False | Some x \<Rightarrow> v \<le> x)"
| "matches (Or_q p q) d = (matches p d \<or> matches q d)"
| "matches (And_q p q) d = (matches p d \<and> matches q d)"

definition find_docs :: "'i query \<Rightarrow> 'i doc list \<Rightarrow> 'i doc list" where
  "find_docs q docs = filter (matches q) docs"

fun find_one :: "'i query \<Rightarrow> 'i doc list \<Rightarrow> 'i doc option" where
  "find_one q [] = None"
| "find_one q (d # docs) = (if matches q d then Some d else find_one q docs)"

text \<open>
  \<^verbatim>\<open>.sort(f, -1)\<close>: descending by field \<open>f\<close>. The store promises no order among documents
  with equal keys; the model takes the reverse of the stable ascending sort.
\<close>

definition sort_desc :: "string \<Rightarrow> 'i doc list \<Rightarrow> 'i doc list" where
  "sort_desc f docs = rev (sort_key (\<lambda>d. doc_fields d f) docs)"

text \<open>The update documents the handlers pass to \<^verbatim>\<open>update_one\<close>.\<close>

datatype update_spec =
    Set_fields "(string \<times> string) list"   \<comment> \<open>\<^verbatim>\<open>{"$set": {...}}\<close>\<close>
  | Unset_field string                     \<comment> \<open>\<^verbatim>\<open>{"$unset": {f: ""}}\<close>\<close>

fun set_fields :: "(string \<times> string) list \<Rightarrow> (string \<rightharpoonup> string) \<Rightarrow> (string \<rightharpoonup> string)" where
  "set_fields [] m = m"
| "set_fields ((k, v) # kvs) m = set_fields kvs (m(k \<mapsto> v))"

fun apply_update :: "update_spec \<Rightarrow> 'i doc \<Rightarrow> 'i doc" where
  "apply_update (Set_fields kvs) d = d\<lparr>doc_fields := set_fields kvs (doc_fields d)\<rparr>"
| "apply_update (Unset_field f) d = d\<lparr>doc_fields := (doc_fields d)(f := None)\<rparr>"

text \<open>Whether an update changes a document: this is what \<^verbatim>\<open>modified_count\<close> counts.\<close>

fun changes :: "update_spec \<Rightarrow> 'i doc \<Rightarrow> bool" where
  "changes (Set_fields kvs) d =
     list_ex (\<lambda>k. set_fields kvs (doc_fields d) k \<noteq> doc_fields d k) (map fst kvs)"
| "changes (Unset_field f) d = (doc_fields d f \<noteq> None)"

record 'i update_result =
  updated_docs :: "'i doc list"
  matched_count :: nat
  modified_count :: nat

fun update_one :: "'i query \<Rightarrow> update_spec \<Rightarrow> 'i doc list \<Rightarrow> 'i update_result" where
  "update_one q u [] = \<lparr>updated_docs = [], matched_count = 0, modified_count = 0\<rparr>"
| "update_one q u (d # docs) =
     (if matches q d
      then \<lparr>updated_docs = apply_update u d # docs, matched_count = 1,
            modified_count = (if changes u d then 1 else 0)\<rparr>
      else (let r = update_one q u docs in r\<lparr>updated_docs := d # updated_docs r\<rparr>))"

record 'i delete_result =
  remaining_docs :: "'i doc list"
  deleted_count :: nat

fun delete_one :: "'i query \<Rightarrow> 'i doc list \<Rightarrow> 'i delete_result" where
  "delete_one q [] = \<lparr>remaining_docs = [], deleted_count = 0\<rparr>"
| "delete_one q (d # docs) =
     (if matches q d then \<lparr>remaining_docs = docs, deleted_count = 1\<rparr>
      else (let r = delete_one q docs in r\<lparr>remaining_docs := d # remaining_docs r\<rparr>))"

subsection \<open>Errors\<close>

datatype error =
    HTTPException nat string   \<comment> \<open>status code and detail\<close>
  | DuplicateKeyError          \<comment> \<open>raised by \<^verbatim>\<open>insert_one\<close> on an \<^verbatim>\<open>_id\<close> already stored\<close>
  | TypeError                  \<comment> \<open>subscripting \<^verbatim>\<open>None\<close>\<close>

definition insert_one :: "'i doc \<Rightarrow> 'i doc list \<Rightarrow> error + 'i doc list" where
  "insert_one d docs =
     (if doc_id d \<in> set (map doc_id docs) then Inl DuplicateKeyError else Inr (docs @ [d]))"

subsection \<open>What the handlers take from their libraries and their environment\<close>

text \<open>
  \<^verbatim>\<open>ObjectId(s)\<close> raises on a string that is not an object id, and
  \<^verbatim>\<open>datetime.fromisoformat(s)\<close> raises \<^verbatim>\<open>ValueError\<close> on a string it does not parse:
  both are \<open>None\<close> here. The handlers use no more of the two than that, and
  \<^verbatim>\<open>str\<close> of an object id, so the three functions are parameters of the handlers.
  So are the value of \<^verbatim>\<open>datetime.utcnow().isoformat()\<close> at the request, in the two
  handlers that read the clock, and the \<^verbatim>\<open>_id\<close> that \<^verbatim>\<open>insert_one\<close> gives the new
  document, in create.
\<close>

record ('oid, 'dt) lib =
  ObjectId :: "string \<Rightarrow> 'oid option"
  oid_str :: "'oid \<Rightarrow> string"
  fromisoformat :: "string \<Rightarrow> 'dt option"

text \<open>\<^verbatim>\<open>s.replace('Z', '+00:00')\<close>: every \<^verbatim>\<open>Z\<close> of the string is replaced.\<close>

definition replace_Z :: "string \<Rightarrow> string" where
  "replace_Z s = concat (map (\<lambda>c. if c = CHR ''Z'' then ''+00:00'' else [c]) s)"

text \<open>Truth value of an \<^verbatim>\<open>Optional[str]\<close>: \<^verbatim>\<open>None\<close> and the empty string are false.\<close>

fun truthy :: "string option \<Rightarrow> bool" where
  "truthy None = False"
| "truthy (Some s) = (s \<noteq> [])"

type_synonym response = "string \<rightharpoonup> string"

text \<open>\<^verbatim>\<open>announcement["_id"] = str(announcement["_id"])\<close>\<close>

definition render :: "('oid, 'dt) lib \<Rightarrow> 'oid doc \<Rightarrow> response" where
  "render L d = (doc_fields d)(''_id'' \<mapsto> oid_str L (doc_id d))"

subsection \<open>The handlers\<close>

text \<open>
  The teacher check, written out at the head of each of the four teacher-only handlers
  (lines 49-56, 82-89, 131-138, 197-204). It returns the user name that passed.
  \<^verbatim>\<open>if not teacher_username\<close> holds for \<^verbatim>\<open>None\<close> and for the empty string, so the
  \<open>None\<close> branch of the case below is never reached. A teacher document that is found
  has its \<^verbatim>\<open>_id\<close>, so \<^verbatim>\<open>if not teacher\<close> holds only when none is found; the same goes for
  \<^verbatim>\<open>if not announcement\<close> in update.
\<close>

definition check_teacher :: "string option \<Rightarrow> 'oid db \<Rightarrow> error + string" where
  "check_teacher teacher_username s =
     (if \<not> truthy teacher_username
      then Inl (HTTPException 401 ''Authentication required for this action'')
      else case teacher_username of
        None \<Rightarrow> Inl (HTTPException 401 ''Authentication required for this action'')
      | Some u \<Rightarrow>
          (case find_one (Id_eq u) (teachers_collection s) of
             None \<Rightarrow> Inl (HTTPException 401 ''Invalid teacher credentials'')
           | Some teacher \<Rightarrow> Inr u))"

text \<open>
  The date check of create and update (lines 92-98, 151-157): \<open>True\<close> when no
  \<^verbatim>\<open>ValueError\<close> is raised.
\<close>

definition dates_parse :: "('oid, 'dt) lib \<Rightarrow> string \<Rightarrow> string option \<Rightarrow> bool" where
  "dates_parse L expiration_date start_date =
     (case fromisoformat L (replace_Z expiration_date) of
        None \<Rightarrow> False
      | Some _ \<Rightarrow>
          (case start_date of
             None \<Rightarrow> True
           | Some sd \<Rightarrow>
               if truthy start_date then fromisoformat L (replace_Z sd) \<noteq> None else True))"

definition active_query :: "string \<Rightarrow> 'oid query" where
  "active_query current_time =
     And_q (Or_q (Exists ''start_date'' False) (Lte ''start_date'' current_time))
           (Gte ''expiration_date'' current_time)"

definition get_active_announcements ::
  "('oid, 'dt) lib \<Rightarrow> string \<Rightarrow> 'oid db \<Rightarrow> (error + response list) \<times> 'oid db" where
  "get_active_announcements L current_time s =
     (Inr (map (render L)
        (sort_desc ''created_at''
           (find_docs (active_query current_time) (announcements_collection s)))), s)"

definition get_all_announcements ::
  "('oid, 'dt) lib \<Rightarrow> string option \<Rightarrow> 'oid db \<Rightarrow> (error + response list) \<times> 'oid db" where
  "get_all_announcements L teacher_username s =
     (case check_teacher teacher_username s of
        Inl e \<Rightarrow> (Inl e, s)
      | Inr u \<Rightarrow>
          (Inr (map (render L)
             (sort_desc ''created_at'' (find_docs All_docs (announcements_collection s)))), s))"

text \<open>The document that create builds before it inserts it (lines 101-109).\<close>

definition new_announcement ::
  "string \<Rightarrow> string \<Rightarrow> string \<Rightarrow> string \<Rightarrow> string option \<Rightarrow> (string \<rightharpoonup> string)" where
  "new_announcement message expiration_date teacher_username utcnow start_date =
     (let announcement =
            [''message'' \<mapsto> message,
             ''expiration_date'' \<mapsto> expiration_date,
             ''created_by'' \<mapsto> teacher_username,
             ''created_at'' \<mapsto> utcnow]
      in case start_date of
           None \<Rightarrow> announcement
         | Some sd \<Rightarrow>
             if truthy start_date then announcement(''start_date'' \<mapsto> sd) else announcement)"

definition create_announcement ::
  "('oid, 'dt) lib \<Rightarrow> string \<Rightarrow> 'oid \<Rightarrow> string \<Rightarrow> string \<Rightarrow> string option \<Rightarrow> string option
     \<Rightarrow> 'oid db \<Rightarrow> (error + response) \<times> 'oid db" where
  "create_announcement L utcnow inserted_id message expiration_date start_date
       teacher_username s =
     (case check_teacher teacher_username s of
        Inl e \<Rightarrow> (Inl e, s)
      | Inr u \<Rightarrow>
          if \<not> dates_parse L expiration_date start_date
          then (Inl (HTTPException 400
                  ''Invalid date format. Use ISO format (YYYY-MM-DDTHH:MM:SS)''), s)
          else
            let announcement = new_announcement message expiration_date u utcnow start_date
            in (case insert_one \<lparr>doc_id = inserted_id, doc_fields = announcement\<rparr>
                       (announcements_collection s) of
                  Inl e \<Rightarrow> (Inl e, s)
                | Inr docs \<Rightarrow>
                    (Inr (announcement(''_id'' \<mapsto> oid_str L inserted_id)),
                     s\<lparr>announcements_collection := docs\<rparr>)))"

text \<open>The fields that update sets (lines 160-166).\<close>

definition update_data :: "string \<Rightarrow> string \<Rightarrow> string option \<Rightarrow> (string \<times> string) list" where
  "update_data message expiration_date start_date =
     [(''message'', message), (''expiration_date'', expiration_date)]
       @ (case start_date of
            None \<Rightarrow> []
          | Some sd \<Rightarrow> if truthy start_date then [(''start_date'', sd)] else [])"

definition update_announcement ::
  "('oid, 'dt) lib \<Rightarrow> string \<Rightarrow> string \<Rightarrow> string \<Rightarrow> string option \<Rightarrow> string option
     \<Rightarrow> 'oid db \<Rightarrow> (error + response) \<times> 'oid db" where
  "update_announcement L announcement_id message expiration_date start_date
       teacher_username s =
     (case check_teacher teacher_username s of
        Inl e \<Rightarrow> (Inl e, s)
      | Inr u \<Rightarrow>
         (case ObjectId L announcement_id of
            None \<Rightarrow> (Inl (HTTPException 400 ''Invalid announcement ID format''), s)
          | Some obj_id \<Rightarrow>
             (case find_one (Id_eq obj_id) (announcements_collection s) of
                None \<Rightarrow> (Inl (HTTPException 404 ''Announcement not found''), s)
              | Some announcement \<Rightarrow>
                 if \<not> dates_parse L expiration_date start_date
                 then (Inl (HTTPException 400
                         ''Invalid date format. Use ISO format (YYYY-MM-DDTHH:MM:SS)''), s)
                 else
                   let docs1 =
                         (if truthy start_date then announcements_collection s
                          else if doc_fields announcement ''start_date'' \<noteq> None
                          then updated_docs
                                 (update_one (Id_eq obj_id) (Unset_field ''start_date'')
                                    (announcements_collection s))
                          else announcements_collection s);
                       result =
                         update_one (Id_eq obj_id)
                           (Set_fields (update_data message expiration_date start_date)) docs1;
                       s' = s\<lparr>announcements_collection := updated_docs result\<rparr>
                   in if modified_count result = 0 \<and> matched_count result = 0
                      then (Inl (HTTPException 500 ''Failed to update announcement''), s')
                      else (case find_one (Id_eq obj_id) (updated_docs result) of
                              None \<Rightarrow> (Inl TypeError, s')
                            | Some updated \<Rightarrow> (Inr (render L updated), s')))))"

definition delete_announcement ::
  "('oid, 'dt) lib \<Rightarrow> string \<Rightarrow> string option \<Rightarrow> 'oid db
     \<Rightarrow> (error + response) \<times> 'oid db" where
  "delete_announcement L announcement_id teacher_username s =
     (case check_teacher teacher_username s of
        Inl e \<Rightarrow> (Inl e, s)
      | Inr u \<Rightarrow>
         (case ObjectId L announcement_id of
            None \<Rightarrow> (Inl (HTTPException 400 ''Invalid announcement ID format''), s)
          | Some obj_id \<Rightarrow>
             (let result = delete_one (Id_eq obj_id) (announcements_collection s);
                  s' = s\<lparr>announcements_collection := remaining_docs result\<rparr>
              in if deleted_count result = 0
                 then (Inl (HTTPException 404 ''Announcement not found''), s')
                 else (Inr [''message'' \<mapsto> ''Announcement deleted successfully''], s'))))"

subsection \<open>A concrete library: object ids and timestamps\<close>

text \<open>
  Object ids, written as the driver prints them: the hexadecimal digits of their bytes, in
  lower case. \<^verbatim>\<open>ObjectId(s)\<close> takes a string of 24 characters that \<^verbatim>\<open>bytes.fromhex\<close>
  reads: pairs of hexadecimal digits in either case, with white space allowed before a pair
  and at the end.
\<close>

definition is_hex_digit :: "char \<Rightarrow> bool" where
  "is_hex_digit c =
     ((CHR ''0'' \<le> c \<and> c \<le> CHR ''9'') \<or> (CHR ''a'' \<le> c \<and> c \<le> CHR ''f'')
      \<or> (CHR ''A'' \<le> c \<and> c \<le> CHR ''F''))"

definition lower_hex :: "char \<Rightarrow> char" where
  "lower_hex c =
     (if CHR ''A'' \<le> c \<and> c \<le> CHR ''F'' then char_of (of_char c + (32::nat)) else c)"

definition is_space :: "char \<Rightarrow> bool" where
  "is_space c = (c = CHR '' '' \<or> (9 \<le> (of_char c :: nat) \<and> (of_char c :: nat) \<le> 13))"

fun fromhex :: "string \<Rightarrow> string option" where
  "fromhex [] = Some []"
| "fromhex [c] = (if is_space c then Some [] else None)"
| "fromhex (c # c' # cs) =
     (if is_space c then fromhex (c' # cs)
      else if is_hex_digit c \<and> is_hex_digit c'
      then map_option (\<lambda>r. lower_hex c # lower_hex c' # r) (fromhex cs)
      else None)"

definition hex_ObjectId :: "string \<Rightarrow> string option" where
  "hex_ObjectId s = (if length s = 24 then fromhex s else None)"

text \<open>
  Timestamps of the form \<^verbatim>\<open>YYYY-MM-DDTHH:MM:SS\<close>, alone or followed by an offset
  \<^verbatim>\<open>+HH:MM\<close> or \<^verbatim>\<open>-HH:MM\<close> of less than a day. On a string of this form
  \<open>basic_fromisoformat\<close> is the date and time that \<^verbatim>\<open>datetime.fromisoformat\<close> returns.
  It is a restriction of the library's parser: it rejects every string of another form,
  also those the library reads (a date alone, fractional seconds, another separator than
  \<^verbatim>\<open>T\<close>, seconds in the offset). It is applied below to strings of the form above and
  to strings that the library rejects as well (the empty string, words); the theorems
  about the handlers hold for every parser.
\<close>

record datetime =
  year :: nat
  month :: nat
  day :: nat
  hour :: nat
  minute :: nat
  second :: nat
  utcoffset :: "int option"   \<comment> \<open>seconds east of UTC; \<open>None\<close> for a naive value\<close>

fun digits_val :: "string \<Rightarrow> nat \<Rightarrow> nat option" where
  "digits_val [] acc = Some acc"
| "digits_val (c # cs) acc =
     (if CHR ''0'' \<le> c \<and> c \<le> CHR ''9''
      then digits_val cs (acc * 10 + (of_char c - 48))
      else None)"

definition is_leap :: "nat \<Rightarrow> bool" where
  "is_leap y = (y mod 4 = 0 \<and> (y mod 100 \<noteq> 0 \<or> y mod 400 = 0))"

definition days_in_month :: "nat \<Rightarrow> nat \<Rightarrow> nat" where
  "days_in_month y m =
     (if m = 2 then (if is_leap y then 29 else 28)
      else if m = 4 \<or> m = 6 \<or> m = 9 \<or> m = 11 then 30 else 31)"

definition parse_offset :: "string \<Rightarrow> int option option" where
  "parse_offset r =
     (if r = [] then Some None
      else if length r \<noteq> 6 \<or> r ! 3 \<noteq> CHR '':'' \<or> (r ! 0 \<noteq> CHR ''+'' \<and> r ! 0 \<noteq> CHR ''-'')
      then None
      else case (digits_val (take 2 (drop 1 r)) 0, digits_val (take 2 (drop 4 r)) 0) of
             (Some h, Some m) \<Rightarrow>
               if h * 3600 + m * 60 < 86400
               then Some (Some ((if r ! 0 = CHR ''-'' then - 1 else 1)
                                  * (int h * 3600 + int m * 60)))
               else None
           | _ \<Rightarrow> None)"

definition basic_fromisoformat :: "string \<Rightarrow> datetime option" where
  "basic_fromisoformat s =
     (if length s < 19 \<or> s ! 4 \<noteq> CHR ''-'' \<or> s ! 7 \<noteq> CHR ''-'' \<or> s ! 10 \<noteq> CHR ''T''
         \<or> s ! 13 \<noteq> CHR '':'' \<or> s ! 16 \<noteq> CHR '':''
      then None
      else case (digits_val (take 4 s) 0, digits_val (take 2 (drop 5 s)) 0,
                 digits_val (take 2 (drop 8 s)) 0, digits_val (take 2 (drop 11 s)) 0,
                 digits_val (take 2 (drop 14 s)) 0, digits_val (take 2 (drop 17 s)) 0,
                 parse_offset (drop 19 s)) of
             (Some y, Some mo, Some d, Some h, Some mi, Some sec, Some off) \<Rightarrow>
               if 1 \<le> y \<and> 1 \<le> mo \<and> mo \<le> 12 \<and> 1 \<le> d \<and> d \<le> days_in_month y mo
                  \<and> h < 24 \<and> mi < 60 \<and> sec < 60
               then Some \<lparr>year = y, month = mo, day = d, hour = h, minute = mi,
                          second = sec, utcoffset = off\<rparr>
               else None
           | _ \<Rightarrow> None)"

text \<open>Days from 1970-01-01 to a date of the proleptic Gregorian calendar.\<close>

definition days_from_civil :: "int \<Rightarrow> int \<Rightarrow> int \<Rightarrow> int" where
  "days_from_civil y m d =
     (let y' = (if m \<le> 2 then y - 1 else y);
          era = y' div 400;
          yoe = y' - era * 400;
          doy = (153 * (if m > 2 then m - 3 else m + 9) + 2) div 5 + d - 1;
          doe = yoe * 365 + yoe div 4 - yoe div 100 + doy
      in era * 146097 + doe - 719468)"

text \<open>
  The instant of a timestamp, in seconds from 1970-01-01T00:00:00 UTC. A naive value is
  read in UTC, which is how \<^verbatim>\<open>datetime.utcnow()\<close> means its result.
\<close>

definition utc_seconds :: "datetime \<Rightarrow> int" where
  "utc_seconds t =
     days_from_civil (int (year t)) (int (month t)) (int (day t)) * 86400
       + int (hour t) * 3600 + int (minute t) * 60 + int (second t)
       - (case utcoffset t of None \<Rightarrow> 0 | Some off \<Rightarrow> off)"

definition instant :: "string \<Rightarrow> int option" where
  "instant s = map_option utc_seconds (basic_fromisoformat (replace_Z s))"

definition basic_lib :: "(string, datetime) lib" where
  "basic_lib = \<lparr>ObjectId = hex_ObjectId, oid_str = id, fromisoformat = basic_fromisoformat\<rparr>"

subsection \<open>A small school\<close>

definition oid1 :: string where "oid1 = ''65f0a1b2c3d4e5f601234567''"
definition oid2 :: string where "oid2 = ''65f0a1b2c3d4e5f601234568''"
definition oid3 :: string where "oid3 = ''65f0a1b2c3d4e5f601234569''"
definition oid4 :: string where "oid4 = ''65f0a1b2c3d4e5f60123456a''"

definition exams :: "string doc" where
  "exams = \<lparr>doc_id = oid1, doc_fields =
     [''message'' \<mapsto> ''Exams start Monday'',
      ''expiration_date'' \<mapsto> ''2026-06-30T00:00:00'',
      ''start_date'' \<mapsto> ''2026-06-01T00:00:00'',
      ''created_by'' \<mapsto> ''mrodriguez'',
      ''created_at'' \<mapsto> ''2026-05-20T09:30:00'']\<rparr>"

definition picnic :: "string doc" where
  "picnic = \<lparr>doc_id = oid2, doc_fields =
     [''message'' \<mapsto> ''School picnic'',
      ''expiration_date'' \<mapsto> ''2026-06-15T10:00:00+05:00'',
      ''created_by'' \<mapsto> ''mchen'',
      ''created_at'' \<mapsto> ''2026-05-25T08:00:00'']\<rparr>"

definition school :: "string db" where
  "school = \<lparr>announcements_collection = [exams, picnic],
             teachers_collection =
               [\<lparr>doc_id = ''mrodriguez'', doc_fields = [''display_name'' \<mapsto> ''Ms. Rodriguez'']\<rparr>,
                \<lparr>doc_id = ''mchen'', doc_fields = [''display_name'' \<mapsto> ''Mr. Chen'']\<rparr>]\<rparr>"

text \<open>The same school with one more announcement, which ends at 06:00 at offset -05:00.\<close>

definition concert :: "string doc" where
  "concert = \<lparr>doc_id = oid4, doc_fields =
     [''message'' \<mapsto> ''Spring concert'',
      ''expiration_date'' \<mapsto> ''2026-06-15T06:00:00-05:00'',
      ''created_by'' \<mapsto> ''mchen'',
      ''created_at'' \<mapsto> ''2026-06-01T12:00:00'']\<rparr>"

definition town :: "string db" where
  "town = school\<lparr>announcements_collection := [exams, picnic, concert]\<rparr>"

section \<open>Properties of the store operations\<close>

lemma matches_active_query:
  "matches (active_query now) d \<longleftrightarrow>
     (doc_fields d ''start_date'' = None
        \<or> (\<exists>sd. doc_fields d ''start_date'' = Some sd \<and> sd \<le> now))
     \<and> (\<exists>e. doc_fields d ''expiration_date'' = Some e \<and> now \<le> e)"
  by (auto simp: active_query_def split: option.splits)

lemma mset_sort_desc: "mset (sort_desc f ds) = mset ds"
  by (simp add: sort_desc_def)

lemma set_sort_desc: "set (sort_desc f ds) = set ds"
  by (simp add: sort_desc_def)

lemma sorted_sort_desc:
  "sorted_wrt (\<lambda>a b. doc_fields b f \<le> doc_fields a f) (sort_desc f ds)"
proof -
  have "sorted (map (\<lambda>d. doc_fields d f) (sort_key (\<lambda>d. doc_fields d f) ds))"
    by (rule sorted_sort_key)
  then have "sorted_wrt (\<lambda>a b. doc_fields a f \<le> doc_fields b f)
               (sort_key (\<lambda>d. doc_fields d f) ds)"
    by (simp add: sorted_map)
  then show ?thesis
    by (simp add: sort_desc_def sorted_wrt_rev)
qed

lemma render_created_at: "render L d ''created_at'' = doc_fields d ''created_at''"
  by (simp add: render_def)

lemma sorted_rendered:
  "sorted_wrt (\<lambda>a b. b ''created_at'' \<le> a ''created_at'')
     (map (render L) (sort_desc ''created_at'' ds))"
  using sorted_sort_desc [of "''created_at''" ds]
  by (simp add: sorted_wrt_map render_created_at)

subsection \<open>The small school, evaluated\<close>

lemma exams_neq_picnic: "exams \<noteq> picnic"
  by (simp add: exams_def picnic_def oid1_def oid2_def)

lemma active_school_0615:
  "find_docs (active_query ''2026-06-15T07:00:00'') (announcements_collection school)
     = [exams, picnic]"
  by (simp add: find_docs_def active_query_def school_def exams_def picnic_def)

lemma check_teacher_mchen: "check_teacher (Some ''mchen'') school = Inr ''mchen''"
  by (simp add: check_teacher_def school_def)

lemma sort_school: "sort_desc ''created_at'' [exams, picnic] = [picnic, exams]"
  by (simp add: sort_desc_def exams_def picnic_def)

lemma active_town_0800:
  "find_docs (active_query ''2026-06-15T08:00:00'') (announcements_collection town)
     = [exams, picnic]"
  by (simp add: find_docs_def active_query_def town_def exams_def picnic_def concert_def)

lemma active_town_0700:
  "find_docs (active_query ''2026-06-15T07:00:00'') (announcements_collection town)
     = [exams, picnic]"
  by (simp add: find_docs_def active_query_def town_def exams_def picnic_def concert_def)

lemma concert_not_rendered:
  "render basic_lib concert \<notin> set [render basic_lib picnic, render basic_lib exams]"
proof -
  have "render basic_lib concert ''_id'' \<noteq> render basic_lib picnic ''_id''"
    and "render basic_lib concert ''_id'' \<noteq> render basic_lib exams ''_id''"
    by (simp_all add: render_def basic_lib_def concert_def picnic_def exams_def
          oid1_def oid2_def oid4_def)
  then show ?thesis by auto
qed

lemma instants_0615:
  "instant ''2026-06-15T06:00:00-05:00'' = Some 1781521200"
  "instant ''2026-06-15T08:00:00'' = Some 1781510400"
  "instant ''2026-06-15T10:00:00+05:00'' = Some 1781499600"
  "instant ''2026-06-15T07:00:00'' = Some 1781506800"
  by (simp_all add: instant_def replace_Z_def basic_fromisoformat_def parse_offset_def
        days_in_month_def is_leap_def utc_seconds_def days_from_civil_def)

section \<open>The public list\<close>

text \<open>
  C1 says that an announcement is listed if and only if its \<^verbatim>\<open>start_date\<close> is absent or
  at most the current UTC instant and its \<^verbatim>\<open>expiration_date\<close> is at least the current UTC
  instant. The filter compares the stored strings with the string
  \<^verbatim>\<open>datetime.utcnow().isoformat()\<close>. The concert announcement has no \<^verbatim>\<open>start_date\<close> and
  ends at 06:00 at offset \<^verbatim>\<open>-05:00\<close>, that is at 11:00 UTC; at 08:00 UTC, three hours
  before that instant, it is not in the public list.
\<close>

theorem utc_instant_counterexample:
  "concert \<in> set (announcements_collection town)
   \<and> doc_fields concert ''start_date'' = None
   \<and> doc_fields concert ''expiration_date'' = Some ''2026-06-15T06:00:00-05:00''
   \<and> instant ''2026-06-15T06:00:00-05:00'' = Some 1781521200
   \<and> instant ''2026-06-15T08:00:00'' = Some 1781510400
   \<and> (1781510400 :: int) \<le> 1781521200
   \<and> fst (get_active_announcements basic_lib ''2026-06-15T08:00:00'' town)
       = Inr [render basic_lib picnic, render basic_lib exams]
   \<and> render basic_lib concert \<notin> set [render basic_lib picnic, render basic_lib exams]"
proof -
  have "concert \<in> set (announcements_collection town)"
    by (simp add: town_def)
  moreover have "doc_fields concert ''start_date'' = None"
    and "doc_fields concert ''expiration_date'' = Some ''2026-06-15T06:00:00-05:00''"
    by (simp_all add: concert_def)
  moreover have "fst (get_active_announcements basic_lib ''2026-06-15T08:00:00'' town)
       = Inr [render basic_lib picnic, render basic_lib exams]"
    by (simp add: get_active_announcements_def active_town_0800 sort_school)
  ultimately show ?thesis
    using concert_not_rendered by (simp add: instants_0615)
qed

text \<open>
  C1, amended. The public list is the rendering of exactly the stored announcements whose
  \<^verbatim>\<open>start_date\<close> is absent or, as a string, at most the string
  \<^verbatim>\<open>datetime.utcnow().isoformat()\<close>, and whose \<^verbatim>\<open>expiration_date\<close> is, as a string, at
  least that string, in the store's order of strings (byte by byte, a proper prefix being
  smaller); each of them is listed as often as it is stored, and the handler returns both
  collections as it found them.
\<close>

theorem public_list_membership:
  "\<exists>ds. get_active_announcements L now s = (Inr (map (render L) ds), s)
      \<and> mset ds =
          {#d \<in># mset (announcements_collection s).
             (doc_fields d ''start_date'' = None
                \<or> (\<exists>sd. doc_fields d ''start_date'' = Some sd \<and> sd \<le> now))
             \<and> (\<exists>e. doc_fields d ''expiration_date'' = Some e \<and> now \<le> e)#}"
proof -
  let ?ds = "sort_desc ''created_at''
               (find_docs (active_query now) (announcements_collection s))"
  have "get_active_announcements L now s = (Inr (map (render L) ?ds), s)"
    by (simp add: get_active_announcements_def)
  moreover have "mset ?ds
      = filter_mset (matches (active_query now)) (mset (announcements_collection s))"
    by (simp add: mset_sort_desc find_docs_def)
  ultimately show ?thesis
    by (auto simp: matches_active_query cong: filter_mset_cong)
qed

theorem public_list_membership_witness:
  "\<exists>ds. get_active_announcements basic_lib ''2026-06-15T07:00:00'' school
           = (Inr (map (render basic_lib) ds), school)
      \<and> mset ds = {#exams, picnic#}"
proof -
  have "{#d \<in># mset (announcements_collection school).
             (doc_fields d ''start_date'' = None
                \<or> (\<exists>sd. doc_fields d ''start_date'' = Some sd
                       \<and> sd \<le> ''2026-06-15T07:00:00''))
             \<and> (\<exists>e. doc_fields d ''expiration_date'' = Some e
                       \<and> ''2026-06-15T07:00:00'' \<le> e)#}
        = {#exams, picnic#}"
    by (simp add: school_def exams_def picnic_def)
  with public_list_membership [of basic_lib "''2026-06-15T07:00:00''" school]
  show ?thesis by simp
qed

text \<open>
  C3. The public list and the teachers' list of all announcements are in descending order
  of \<^verbatim>\<open>created_at\<close>, whatever the collection holds.
\<close>

theorem listings_sorted_desc:
  "(\<forall>rs. fst (get_active_announcements L now s) = Inr rs
       \<longrightarrow> sorted_wrt (\<lambda>a b. b ''created_at'' \<le> a ''created_at'') rs)
   \<and> (\<forall>rs. fst (get_all_announcements L teacher_username s) = Inr rs
       \<longrightarrow> sorted_wrt (\<lambda>a b. b ''created_at'' \<le> a ''created_at'') rs)"
  by (auto simp: get_active_announcements_def get_all_announcements_def sorted_rendered
           split: sum.splits)

theorem listings_sorted_desc_witness:
  "fst (get_active_announcements basic_lib ''2026-06-15T07:00:00'' school)
     = Inr [render basic_lib picnic, render basic_lib exams]
   \<and> fst (get_all_announcements basic_lib (Some ''mchen'') school)
     = Inr [render basic_lib picnic, render basic_lib exams]
   \<and> sorted_wrt (\<lambda>a b. b ''created_at'' \<le> a ''created_at'')
       [render basic_lib picnic, render basic_lib exams]"
proof -
  have a: "fst (get_active_announcements basic_lib ''2026-06-15T07:00:00'' school)
     = Inr [render basic_lib picnic, render basic_lib exams]"
    by (simp add: get_active_announcements_def active_school_0615 sort_school)
  have b: "fst (get_all_announcements basic_lib (Some ''mchen'') school)
     = Inr [render basic_lib picnic, render basic_lib exams]"
    by (simp add: get_all_announcements_def check_teacher_mchen find_docs_def sort_school)
       (simp add: school_def sort_school)
  from a b listings_sorted_desc [of basic_lib "''2026-06-15T07:00:00''" school "Some ''mchen''"]
  show ?thesis by simp
qed

lemma active_school_0630:
  "find_docs (active_query ''2026-06-30T00:00:00'') (announcements_collection school)
     = [exams]"
  by (simp add: find_docs_def active_query_def school_def exams_def picnic_def)

text \<open>
  C2 says that an announcement is listed only while the current time is strictly before
  its \<^verbatim>\<open>expiration_date\<close>, and omitted at the instant the two are equal. The filter is
  \<^verbatim>\<open>{"expiration_date": {"$gte": current_time}}\<close>: at the instant of expiry the
  announcement is still listed.
\<close>

theorem expiry_instant_counterexample:
  "doc_fields exams ''expiration_date'' = Some ''2026-06-30T00:00:00''
   \<and> exams \<in> set (announcements_collection school)
   \<and> fst (get_active_announcements basic_lib ''2026-06-30T00:00:00'' school)
       = Inr [render basic_lib exams]"
  by (simp add: get_active_announcements_def active_school_0630 sort_desc_def)
     (simp add: exams_def school_def)

text \<open>
  C2, amended. An announcement is listed only while the current time is at most its
  \<^verbatim>\<open>expiration_date\<close>: every listed announcement has an \<^verbatim>\<open>expiration_date\<close> at or
  after the current time, an announcement that has started is still listed at the instant
  the current time equals its \<^verbatim>\<open>expiration_date\<close>, and an announcement whose
  \<^verbatim>\<open>expiration_date\<close> is strictly before the current time is omitted.
\<close>

theorem expiry_inclusive:
  "\<exists>ds. fst (get_active_announcements L now s) = Inr (map (render L) ds)
      \<and> set ds \<subseteq> set (announcements_collection s)
      \<and> (\<forall>d \<in> set ds. \<exists>e. doc_fields d ''expiration_date'' = Some e \<and> now \<le> e)
      \<and> (\<forall>d \<in> set (announcements_collection s).
            doc_fields d ''expiration_date'' = Some now
            \<and> (doc_fields d ''start_date'' = None
                 \<or> (\<exists>sd. doc_fields d ''start_date'' = Some sd \<and> sd \<le> now))
            \<longrightarrow> d \<in> set ds)
      \<and> (\<forall>d \<in> set (announcements_collection s).
            \<forall>e. doc_fields d ''expiration_date'' = Some e \<and> e < now \<longrightarrow> d \<notin> set ds)"
proof -
  let ?ds = "sort_desc ''created_at''
               (find_docs (active_query now) (announcements_collection s))"
  have set: "set ?ds = {d \<in> set (announcements_collection s). matches (active_query now) d}"
    by (simp add: set_sort_desc find_docs_def)
  have "fst (get_active_announcements L now s) = Inr (map (render L) ?ds)"
    by (simp add: get_active_announcements_def)
  moreover have "set ?ds \<subseteq> set (announcements_collection s)"
    using set by blast
  moreover have "\<forall>d \<in> set ?ds. \<exists>e. doc_fields d ''expiration_date'' = Some e \<and> now \<le> e"
    using set by (simp add: matches_active_query)
  moreover have "\<forall>d \<in> set (announcements_collection s).
            doc_fields d ''expiration_date'' = Some now
            \<and> (doc_fields d ''start_date'' = None
                 \<or> (\<exists>sd. doc_fields d ''start_date'' = Some sd \<and> sd \<le> now))
            \<longrightarrow> d \<in> set ?ds"
    using set by (simp add: matches_active_query)
  moreover have "\<forall>d \<in> set (announcements_collection s).
            \<forall>e. doc_fields d ''expiration_date'' = Some e \<and> e < now \<longrightarrow> d \<notin> set ?ds"
    using set by (auto simp: matches_active_query)
  ultimately show ?thesis by blast
qed

theorem expiry_inclusive_witness:
  "exams \<in> set (announcements_collection school)
   \<and> picnic \<in> set (announcements_collection school)
   \<and> doc_fields exams ''expiration_date'' = Some ''2026-06-30T00:00:00''
   \<and> doc_fields picnic ''expiration_date'' = Some ''2026-06-15T10:00:00+05:00''
   \<and> ''2026-06-15T10:00:00+05:00'' < ''2026-06-30T00:00:00''
   \<and> (\<exists>ds. fst (get_active_announcements basic_lib ''2026-06-30T00:00:00'' school)
              = Inr (map (render basic_lib) ds)
          \<and> exams \<in> set ds \<and> picnic \<notin> set ds)"
proof -
  have a: "exams \<in> set (announcements_collection school)"
    and b: "picnic \<in> set (announcements_collection school)"
    by (simp_all add: school_def)
  have c: "doc_fields exams ''expiration_date'' = Some ''2026-06-30T00:00:00''"
    and c': "doc_fields exams ''start_date'' = Some ''2026-06-01T00:00:00''"
    and c'': "''2026-06-01T00:00:00'' \<le> ''2026-06-30T00:00:00''"
    by (simp_all add: exams_def)
  have d: "doc_fields picnic ''expiration_date'' = Some ''2026-06-15T10:00:00+05:00''"
    and e: "''2026-06-15T10:00:00+05:00'' < ''2026-06-30T00:00:00''"
    by (simp_all add: picnic_def)
  from expiry_inclusive [of basic_lib "''2026-06-30T00:00:00''" school]
  obtain ds where
    ds: "fst (get_active_announcements basic_lib ''2026-06-30T00:00:00'' school)
           = Inr (map (render basic_lib) ds)"
    and incl: "\<forall>d \<in> set (announcements_collection school).
            doc_fields d ''expiration_date'' = Some ''2026-06-30T00:00:00''
            \<and> (doc_fields d ''start_date'' = None
                 \<or> (\<exists>sd. doc_fields d ''start_date'' = Some sd
                        \<and> sd \<le> ''2026-06-30T00:00:00''))
            \<longrightarrow> d \<in> set ds"
    and excl: "\<forall>d \<in> set (announcements_collection school).
            \<forall>e. doc_fields d ''expiration_date'' = Some e \<and> e < ''2026-06-30T00:00:00''
              \<longrightarrow> d \<notin> set ds"
    by blast
  from incl a c c' c'' have "exams \<in> set ds" by blast
  moreover from excl b d e have "picnic \<notin> set ds" by blast
  ultimately show ?thesis using a b c d e ds by blast
qed

section \<open>The teacher check\<close>

lemma check_teacher_missing:
  "teacher_username = None \<or> teacher_username = Some [] \<Longrightarrow>
   check_teacher teacher_username s
     = Inl (HTTPException 401 ''Authentication required for this action'')"
  by (auto simp: check_teacher_def)

lemma check_teacher_unknown:
  "u \<noteq> [] \<Longrightarrow> find_one (Id_eq u) (teachers_collection s) = None \<Longrightarrow>
   check_teacher (Some u) s = Inl (HTTPException 401 ''Invalid teacher credentials'')"
  by (simp add: check_teacher_def)

lemma check_teacher_Inr:
  "check_teacher teacher_username s = Inr u \<longleftrightarrow>
     teacher_username = Some u \<and> u \<noteq> [] \<and> find_one (Id_eq u) (teachers_collection s) \<noteq> None"
  by (auto simp: check_teacher_def split: option.splits)

lemma teacher_check_fails:
  "check_teacher teacher_username s = Inl e \<Longrightarrow>
     get_all_announcements L teacher_username s = (Inl e, s)
   \<and> create_announcement L utcnow inserted_id message expiration_date start_date
        teacher_username s = (Inl e, s)
   \<and> update_announcement L announcement_id message expiration_date start_date
        teacher_username s = (Inl e, s)
   \<and> delete_announcement L announcement_id teacher_username s = (Inl e, s)"
  by (simp add: get_all_announcements_def create_announcement_def update_announcement_def
        delete_announcement_def)

lemma no_empty_teacher: "find_one (Id_eq []) (teachers_collection school) = None"
  by (simp add: school_def)

text \<open>
  C4 says that a credential that is present and matches no teacher record fails with the
  invalid-credential reason. The check is \<^verbatim>\<open>if not teacher_username\<close>: the empty
  string, which is what a request with \<^verbatim>\<open>teacher_username=\<close> carries, is present,
  matches no teacher record, and fails with the missing-credential reason.
\<close>

theorem empty_credential_counterexample:
  "find_one (Id_eq '''') (teachers_collection school) = None
   \<and> get_all_announcements basic_lib (Some '''') school
       = (Inl (HTTPException 401 ''Authentication required for this action''), school)
   \<and> delete_announcement basic_lib oid1 (Some '''') school
       = (Inl (HTTPException 401 ''Authentication required for this action''), school)
   \<and> HTTPException 401 ''Authentication required for this action''
       \<noteq> HTTPException 401 ''Invalid teacher credentials''"
  by (simp add: no_empty_teacher get_all_announcements_def delete_announcement_def
        check_teacher_def)

text \<open>
  C4, amended. For each teacher-only handler (list all, create, update, delete): when
  \<^verbatim>\<open>teacher_username\<close> is absent or empty the handler fails with status 401 and the
  missing-credential detail; when it is a non-empty string that is the \<^verbatim>\<open>_id\<close> of no
  teacher record the handler fails with status 401 and the invalid-credential detail; in
  both cases the two collections are returned as they were.
\<close>

theorem teacher_check_failures:
  "((teacher_username = None \<or> teacher_username = Some []) \<longrightarrow>
      (get_all_announcements L teacher_username s
         = (Inl (HTTPException 401 ''Authentication required for this action''), s)
       \<and> create_announcement L utcnow inserted_id message expiration_date start_date
            teacher_username s
         = (Inl (HTTPException 401 ''Authentication required for this action''), s)
       \<and> update_announcement L announcement_id message expiration_date start_date
            teacher_username s
         = (Inl (HTTPException 401 ''Authentication required for this action''), s)
       \<and> delete_announcement L announcement_id teacher_username s
         = (Inl (HTTPException 401 ''Authentication required for this action''), s)))
   \<and> (\<forall>u. teacher_username = Some u \<and> u \<noteq> []
            \<and> find_one (Id_eq u) (teachers_collection s) = None \<longrightarrow>
      (get_all_announcements L teacher_username s
         = (Inl (HTTPException 401 ''Invalid teacher credentials''), s)
       \<and> create_announcement L utcnow inserted_id message expiration_date start_date
            teacher_username s
         = (Inl (HTTPException 401 ''Invalid teacher credentials''), s)
       \<and> update_announcement L announcement_id message expiration_date start_date
            teacher_username s
         = (Inl (HTTPException 401 ''Invalid teacher credentials''), s)
       \<and> delete_announcement L announcement_id teacher_username s
         = (Inl (HTTPException 401 ''Invalid teacher credentials''), s)))"
proof (rule conjI)
  show "(teacher_username = None \<or> teacher_username = Some []) \<longrightarrow>
      (get_all_announcements L teacher_username s
         = (Inl (HTTPException 401 ''Authentication required for this action''), s)
       \<and> create_announcement L utcnow inserted_id message expiration_date start_date
            teacher_username s
         = (Inl (HTTPException 401 ''Authentication required for this action''), s)
       \<and> update_announcement L announcement_id message expiration_date start_date
            teacher_username s
         = (Inl (HTTPException 401 ''Authentication required for this action''), s)
       \<and> delete_announcement L announcement_id teacher_username s
         = (Inl (HTTPException 401 ''Authentication required for this action''), s))"
  proof
    assume "teacher_username = None \<or> teacher_username = Some []"
    then have "check_teacher teacher_username s = Inl (HTTPException 401 ''Authentication required for this action'')"
      by (rule check_teacher_missing)
    then show "(get_all_announcements L teacher_username s
         = (Inl (HTTPException 401 ''Authentication required for this action''), s)
       \<and> create_announcement L utcnow inserted_id message expiration_date start_date
            teacher_username s
         = (Inl (HTTPException 401 ''Authentication required for this action''), s)
       \<and> update_announcement L announcement_id message expiration_date start_date
            teacher_username s
         = (Inl (HTTPException 401 ''Authentication required for this action''), s)
       \<and> delete_announcement L announcement_id teacher_username s
         = (Inl (HTTPException 401 ''Authentication required for this action''), s))"
      by (rule teacher_check_fails)
  qed
next
  show "\<forall>u. teacher_username = Some u \<and> u \<noteq> []
            \<and> find_one (Id_eq u) (teachers_collection s) = None \<longrightarrow>
      (get_all_announcements L teacher_username s
         = (Inl (HTTPException 401 ''Invalid teacher credentials''), s)
       \<and> create_announcement L utcnow inserted_id message expiration_date start_date
            teacher_username s
         = (Inl (HTTPException 401 ''Invalid teacher credentials''), s)
       \<and> update_announcement L announcement_id message expiration_date start_date
            teacher_username s
         = (Inl (HTTPException 401 ''Invalid teacher credentials''), s)
       \<and> delete_announcement L announcement_id teacher_username s
         = (Inl (HTTPException 401 ''Invalid teacher credentials''), s))"
  proof (intro allI impI)
    fix u
    assume "teacher_username = Some u \<and> u \<noteq> []
              \<and> find_one (Id_eq u) (teachers_collection s) = None"
    then have "check_teacher teacher_username s = Inl (HTTPException 401 ''Invalid teacher credentials'')"
      by (simp add: check_teacher_unknown)
    then show "(get_all_announcements L teacher_username s
         = (Inl (HTTPException 401 ''Invalid teacher credentials''), s)
       \<and> create_announcement L utcnow inserted_id message expiration_date start_date
            teacher_username s
         = (Inl (HTTPException 401 ''Invalid teacher credentials''), s)
       \<and> update_announcement L announcement_id message expiration_date start_date
            teacher_username s
         = (Inl (HTTPException 401 ''Invalid teacher credentials''), s)
       \<and> delete_announcement L announcement_id teacher_username s
         = (Inl (HTTPException 401 ''Invalid teacher credentials''), s))"
      by (rule teacher_check_fails)
  qed
qed

lemma no_teacher_jdoe: "find_one (Id_eq ''jdoe'') (teachers_collection school) = None"
  by (simp add: school_def)

theorem teacher_check_failures_witness:
  "create_announcement basic_lib ''2026-06-15T07:00:00'' oid3 ''Hello''
       ''2026-07-01T00:00:00'' None None school
     = (Inl (HTTPException 401 ''Authentication required for this action''), school)
   \<and> find_one (Id_eq ''jdoe'') (teachers_collection school) = None
   \<and> create_announcement basic_lib ''2026-06-15T07:00:00'' oid3 ''Hello''
       ''2026-07-01T00:00:00'' None (Some ''jdoe'') school
     = (Inl (HTTPException 401 ''Invalid teacher credentials''), school)"
  using teacher_check_failures [where teacher_username = None and s = school
          and L = basic_lib and utcnow = "''2026-06-15T07:00:00''" and inserted_id = oid3
          and message = "''Hello''" and expiration_date = "''2026-07-01T00:00:00''"
          and start_date = None and announcement_id = oid1]
        teacher_check_failures [where teacher_username = "Some ''jdoe''" and s = school
          and L = basic_lib and utcnow = "''2026-06-15T07:00:00''" and inserted_id = oid3
          and message = "''Hello''" and expiration_date = "''2026-07-01T00:00:00''"
          and start_date = None and announcement_id = oid1]
        no_teacher_jdoe
  by simp

section \<open>Date validation\<close>

lemma dates_parse_iff:
  "dates_parse L expiration_date start_date \<longleftrightarrow>
     fromisoformat L (replace_Z expiration_date) \<noteq> None
     \<and> (\<forall>sd. start_date = Some sd \<and> sd \<noteq> [] \<longrightarrow> fromisoformat L (replace_Z sd) \<noteq> None)"
  by (auto simp: dates_parse_def split: option.splits)

lemma basic_rejects_empty: "fromisoformat basic_lib (replace_Z '''') = None"
  by (simp add: basic_lib_def replace_Z_def basic_fromisoformat_def)

lemma basic_parses_0701: "fromisoformat basic_lib (replace_Z ''2026-07-01T00:00:00'') \<noteq> None"
  by (simp add: basic_lib_def replace_Z_def basic_fromisoformat_def parse_offset_def
        days_in_month_def is_leap_def)

lemma oid3_fresh: "oid3 \<notin> set (map doc_id (announcements_collection school))"
  by (simp add: school_def exams_def picnic_def oid1_def oid2_def oid3_def)

text \<open>
  C5 says that create and update fail with a validation error when a \<^verbatim>\<open>start_date\<close> is
  provided and does not parse. The handlers parse \<^verbatim>\<open>start_date\<close> under
  \<^verbatim>\<open>if start_date\<close> only: the empty string, which is what a request with
  \<^verbatim>\<open>start_date=\<close> carries, is provided, does not parse, and the announcement is created.
\<close>

theorem empty_start_date_counterexample:
  "fromisoformat basic_lib (replace_Z '''') = None
   \<and> create_announcement basic_lib ''2026-06-15T07:00:00'' oid3 ''Hello''
        ''2026-07-01T00:00:00'' (Some '''') (Some ''mchen'') school
     = (Inr [''message'' \<mapsto> ''Hello'', ''expiration_date'' \<mapsto> ''2026-07-01T00:00:00'',
             ''created_by'' \<mapsto> ''mchen'', ''created_at'' \<mapsto> ''2026-06-15T07:00:00'',
             ''_id'' \<mapsto> oid3],
        school\<lparr>announcements_collection :=
          [exams, picnic,
           \<lparr>doc_id = oid3, doc_fields =
              [''message'' \<mapsto> ''Hello'', ''expiration_date'' \<mapsto> ''2026-07-01T00:00:00'',
               ''created_by'' \<mapsto> ''mchen'', ''created_at'' \<mapsto> ''2026-06-15T07:00:00'']\<rparr>]\<rparr>)"
  using basic_parses_0701 oid3_fresh
  by (simp add: basic_rejects_empty create_announcement_def check_teacher_mchen
        dates_parse_iff insert_one_def Let_def new_announcement_def)
     (simp add: school_def basic_lib_def)

text \<open>
  C5, amended. For a request that passes the teacher check: when \<^verbatim>\<open>expiration_date\<close>,
  with every \<^verbatim>\<open>Z\<close> replaced by \<^verbatim>\<open>+00:00\<close>, does not parse, or \<^verbatim>\<open>start_date\<close> is
  provided, is not empty and does not parse likewise, create fails with status 400 and the
  invalid-date detail, and so does update when the identifier is a valid key of a stored
  announcement; the status differs from that of an authentication failure, and the two
  collections are returned as they were.
\<close>

theorem unparsed_dates_rejected:
  assumes "check_teacher teacher_username s = Inr u"
    and "fromisoformat L (replace_Z expiration_date) = None
         \<or> (\<exists>sd. start_date = Some sd \<and> sd \<noteq> [] \<and> fromisoformat L (replace_Z sd) = None)"
  shows "create_announcement L utcnow inserted_id message expiration_date start_date
             teacher_username s
           = (Inl (HTTPException 400
                ''Invalid date format. Use ISO format (YYYY-MM-DDTHH:MM:SS)''), s)
         \<and> (\<forall>obj_id. ObjectId L announcement_id = Some obj_id
                \<and> find_one (Id_eq obj_id) (announcements_collection s) \<noteq> None \<longrightarrow>
              update_announcement L announcement_id message expiration_date start_date
                  teacher_username s
                = (Inl (HTTPException 400
                     ''Invalid date format. Use ISO format (YYYY-MM-DDTHH:MM:SS)''), s))
         \<and> (\<forall>detail. HTTPException 400
                ''Invalid date format. Use ISO format (YYYY-MM-DDTHH:MM:SS)''
              \<noteq> HTTPException 401 detail)"
proof -
  from assms(2) have bad: "\<not> dates_parse L expiration_date start_date"
    by (auto simp: dates_parse_iff)
  have "create_announcement L utcnow inserted_id message expiration_date start_date
             teacher_username s
           = (Inl (HTTPException 400
                ''Invalid date format. Use ISO format (YYYY-MM-DDTHH:MM:SS)''), s)"
    using assms(1) bad by (simp add: create_announcement_def)
  moreover have "\<forall>obj_id. ObjectId L announcement_id = Some obj_id
                \<and> find_one (Id_eq obj_id) (announcements_collection s) \<noteq> None \<longrightarrow>
              update_announcement L announcement_id message expiration_date start_date
                  teacher_username s
                = (Inl (HTTPException 400
                     ''Invalid date format. Use ISO format (YYYY-MM-DDTHH:MM:SS)''), s)"
    using assms(1) bad by (auto simp: update_announcement_def)
  ultimately show ?thesis by simp
qed

lemma basic_rejects_words:
  "fromisoformat basic_lib (replace_Z ''next week'') = None"
  "fromisoformat basic_lib (replace_Z ''soon'') = None"
  by (simp_all add: basic_lib_def replace_Z_def basic_fromisoformat_def)

lemma basic_ObjectId_oid1: "ObjectId basic_lib oid1 = Some oid1"
  by (simp add: basic_lib_def hex_ObjectId_def oid1_def is_hex_digit_def lower_hex_def
        is_space_def)

lemma find_exams: "find_one (Id_eq oid1) (announcements_collection school) = Some exams"
  by (simp add: school_def exams_def)

theorem unparsed_dates_rejected_witness:
  "create_announcement basic_lib ''2026-06-15T07:00:00'' oid3 ''Hello'' ''next week'' None
       (Some ''mchen'') school
     = (Inl (HTTPException 400
          ''Invalid date format. Use ISO format (YYYY-MM-DDTHH:MM:SS)''), school)
   \<and> update_announcement basic_lib oid1 ''Hello'' ''2026-07-01T00:00:00'' (Some ''soon'')
       (Some ''mchen'') school
     = (Inl (HTTPException 400
          ''Invalid date format. Use ISO format (YYYY-MM-DDTHH:MM:SS)''), school)"
proof -
  have a: "fromisoformat basic_lib (replace_Z ''next week'') = None
         \<or> (\<exists>sd. None = Some sd \<and> sd \<noteq> [] \<and> fromisoformat basic_lib (replace_Z sd) = None)"
    by (simp add: basic_rejects_words)
  have b: "fromisoformat basic_lib (replace_Z ''2026-07-01T00:00:00'') = None
         \<or> (\<exists>sd. Some ''soon'' = Some sd \<and> sd \<noteq> []
               \<and> fromisoformat basic_lib (replace_Z sd) = None)"
    by (simp add: basic_rejects_words)
  from unparsed_dates_rejected [OF check_teacher_mchen a, of "''2026-06-15T07:00:00''" oid3
         "''Hello''" oid1]
       unparsed_dates_rejected [OF check_teacher_mchen b, of "''2026-06-15T07:00:00''" oid3
         "''Hello''" oid1]
       basic_ObjectId_oid1 find_exams
  show ?thesis by simp
qed

section \<open>Create\<close>

lemma new_announcement_fields:
  "new_announcement message expiration_date u utcnow start_date ''message'' = Some message"
  "new_announcement message expiration_date u utcnow start_date ''expiration_date''
     = Some expiration_date"
  "new_announcement message expiration_date u utcnow start_date ''created_by'' = Some u"
  "new_announcement message expiration_date u utcnow start_date ''created_at'' = Some utcnow"
  "new_announcement message expiration_date u utcnow start_date ''start_date''
     = (if truthy start_date then start_date else None)"
  by (auto simp: new_announcement_def Let_def split: option.splits)

lemma dom_new_announcement:
  "dom (new_announcement message expiration_date u utcnow start_date)
     \<subseteq> {''message'', ''expiration_date'', ''created_by'', ''created_at'', ''start_date''}"
  by (auto simp: new_announcement_def Let_def split: option.splits if_splits)

lemma create_announcement_Inr:
  assumes "create_announcement L utcnow inserted_id message expiration_date start_date
             teacher_username s = (Inr r, s')"
  shows "\<exists>u. check_teacher teacher_username s = Inr u
           \<and> dates_parse L expiration_date start_date
           \<and> inserted_id \<notin> set (map doc_id (announcements_collection s))
           \<and> r = render L \<lparr>doc_id = inserted_id,
                   doc_fields = new_announcement message expiration_date u utcnow start_date\<rparr>
           \<and> s' = s\<lparr>announcements_collection := announcements_collection s @
                   [\<lparr>doc_id = inserted_id,
                     doc_fields = new_announcement message expiration_date u utcnow start_date\<rparr>]\<rparr>"
  using assms
  by (auto simp: create_announcement_def Let_def insert_one_def render_def
           split: sum.splits if_splits)

text \<open>
  C6. When create succeeds, the announcements collection is the old one followed by one new
  document and the teachers collection is as it was. The new document has \<^verbatim>\<open>created_by\<close>
  the requesting teacher, \<^verbatim>\<open>created_at\<close> the current time, the message and the
  \<^verbatim>\<open>expiration_date\<close> given, and no field beyond these and \<^verbatim>\<open>start_date\<close>. A
  \<^verbatim>\<open>start_date\<close> that is supplied and not empty is stored and returned as given; the
  document has a \<^verbatim>\<open>start_date\<close> only when the request supplied one, with that value, and
  none at all when the request supplied none or an empty one, so a stored \<^verbatim>\<open>start_date\<close>
  is never empty. The response is the new document with its \<^verbatim>\<open>_id\<close> rendered as a string.
\<close>

theorem created_record:
  assumes "create_announcement L utcnow inserted_id message expiration_date start_date
             teacher_username s = (Inr r, s')"
  shows "\<exists>u d. teacher_username = Some u
           \<and> announcements_collection s' = announcements_collection s @ [d]
           \<and> teachers_collection s' = teachers_collection s
           \<and> doc_id d = inserted_id
           \<and> doc_fields d ''created_by'' = Some u
           \<and> doc_fields d ''created_at'' = Some utcnow
           \<and> doc_fields d ''message'' = Some message
           \<and> doc_fields d ''expiration_date'' = Some expiration_date
           \<and> (start_date = None \<longrightarrow> ''start_date'' \<notin> dom (doc_fields d))
           \<and> (\<forall>x. doc_fields d ''start_date'' = Some x \<longrightarrow> start_date = Some x)
           \<and> (\<forall>x. start_date = Some x \<and> x \<noteq> [] \<longrightarrow>
                 doc_fields d ''start_date'' = Some x \<and> r ''start_date'' = Some x)
           \<and> (start_date = Some [] \<longrightarrow> ''start_date'' \<notin> dom (doc_fields d))
           \<and> dom (doc_fields d)
                \<subseteq> {''message'', ''expiration_date'', ''created_by'', ''created_at'',
                    ''start_date''}
           \<and> r = render L d"
proof -
  from create_announcement_Inr [OF assms] obtain u where
    u: "check_teacher teacher_username s = Inr u"
    and r: "r = render L \<lparr>doc_id = inserted_id,
                   doc_fields = new_announcement message expiration_date u utcnow start_date\<rparr>"
    and s': "s' = s\<lparr>announcements_collection := announcements_collection s @
                   [\<lparr>doc_id = inserted_id,
                     doc_fields = new_announcement message expiration_date u utcnow start_date\<rparr>]\<rparr>"
    by blast
  let ?d = "\<lparr>doc_id = inserted_id,
             doc_fields = new_announcement message expiration_date u utcnow start_date\<rparr>"
  from u have "teacher_username = Some u"
    by (simp add: check_teacher_Inr)
  moreover from s' have "announcements_collection s' = announcements_collection s @ [?d]"
    and "teachers_collection s' = teachers_collection s"
    by simp_all
  moreover have "start_date = None \<longrightarrow> ''start_date'' \<notin> dom (doc_fields ?d)"
    by (simp add: new_announcement_fields domIff)
  moreover have "\<forall>x. doc_fields ?d ''start_date'' = Some x \<longrightarrow> start_date = Some x"
    by (simp add: new_announcement_fields split: if_splits)
  moreover have "\<forall>x. start_date = Some x \<and> x \<noteq> [] \<longrightarrow>
                   doc_fields ?d ''start_date'' = Some x \<and> r ''start_date'' = Some x"
    by (simp add: r render_def new_announcement_fields)
  moreover have "start_date = Some [] \<longrightarrow> ''start_date'' \<notin> dom (doc_fields ?d)"
    by (simp add: new_announcement_fields domIff)
  moreover have "dom (doc_fields ?d)
                \<subseteq> {''message'', ''expiration_date'', ''created_by'', ''created_at'',
                    ''start_date''}"
    using dom_new_announcement by simp
  ultimately show ?thesis
    using r by (intro exI [of _ u] exI [of _ ?d]) (simp add: new_announcement_fields)
qed

lemma basic_parses_0620:
  "fromisoformat basic_lib (replace_Z ''2026-06-20T00:00:00'') \<noteq> None"
  by (simp add: basic_lib_def replace_Z_def basic_fromisoformat_def parse_offset_def
        days_in_month_def is_leap_def)

lemma create_with_start_succeeds:
  "\<exists>r s'. create_announcement basic_lib ''2026-06-15T07:00:00'' oid3 ''Hello''
             ''2026-07-01T00:00:00'' (Some ''2026-06-20T00:00:00'') (Some ''mchen'') school
           = (Inr r, s')"
  using basic_parses_0701 basic_parses_0620 oid3_fresh
  by (simp add: create_announcement_def check_teacher_mchen dates_parse_iff insert_one_def
        Let_def)

theorem created_record_witness:
  "create_announcement basic_lib ''2026-06-15T07:00:00'' oid3 ''Hello''
       ''2026-07-01T00:00:00'' None (Some ''mchen'') school
     = (Inr (render basic_lib
          \<lparr>doc_id = oid3, doc_fields =
             [''message'' \<mapsto> ''Hello'', ''expiration_date'' \<mapsto> ''2026-07-01T00:00:00'',
              ''created_by'' \<mapsto> ''mchen'', ''created_at'' \<mapsto> ''2026-06-15T07:00:00'']\<rparr>),
        school\<lparr>announcements_collection :=
          [exams, picnic,
           \<lparr>doc_id = oid3, doc_fields =
             [''message'' \<mapsto> ''Hello'', ''expiration_date'' \<mapsto> ''2026-07-01T00:00:00'',
              ''created_by'' \<mapsto> ''mchen'', ''created_at'' \<mapsto> ''2026-06-15T07:00:00'']\<rparr>]\<rparr>)
   \<and> (\<exists>d. announcements_collection
             (snd (create_announcement basic_lib ''2026-06-15T07:00:00'' oid3 ''Hello''
                     ''2026-07-01T00:00:00'' None (Some ''mchen'') school))
           = announcements_collection school @ [d]
         \<and> doc_fields d ''created_by'' = Some ''mchen''
         \<and> ''start_date'' \<notin> dom (doc_fields d))
   \<and> (\<exists>r s' d.
         create_announcement basic_lib ''2026-06-15T07:00:00'' oid3 ''Hello''
             ''2026-07-01T00:00:00'' (Some ''2026-06-20T00:00:00'') (Some ''mchen'') school
           = (Inr r, s')
         \<and> announcements_collection s' = announcements_collection school @ [d]
         \<and> doc_id d = oid3
         \<and> doc_fields d ''message'' = Some ''Hello''
         \<and> doc_fields d ''created_by'' = Some ''mchen''
         \<and> doc_fields d ''start_date'' = Some ''2026-06-20T00:00:00''
         \<and> r ''start_date'' = Some ''2026-06-20T00:00:00''
         \<and> r = render basic_lib d)"
proof -
  have c: "create_announcement basic_lib ''2026-06-15T07:00:00'' oid3 ''Hello''
       ''2026-07-01T00:00:00'' None (Some ''mchen'') school
     = (Inr (render basic_lib
          \<lparr>doc_id = oid3, doc_fields =
             [''message'' \<mapsto> ''Hello'', ''expiration_date'' \<mapsto> ''2026-07-01T00:00:00'',
              ''created_by'' \<mapsto> ''mchen'', ''created_at'' \<mapsto> ''2026-06-15T07:00:00'']\<rparr>),
        school\<lparr>announcements_collection :=
          [exams, picnic,
           \<lparr>doc_id = oid3, doc_fields =
             [''message'' \<mapsto> ''Hello'', ''expiration_date'' \<mapsto> ''2026-07-01T00:00:00'',
              ''created_by'' \<mapsto> ''mchen'', ''created_at'' \<mapsto> ''2026-06-15T07:00:00'']\<rparr>]\<rparr>)"
    using basic_parses_0701 oid3_fresh
    by (simp add: create_announcement_def check_teacher_mchen dates_parse_iff insert_one_def
          Let_def new_announcement_def render_def)
       (simp add: school_def)
  from created_record [OF c] have first:
    "\<exists>d. announcements_collection
             (snd (create_announcement basic_lib ''2026-06-15T07:00:00'' oid3 ''Hello''
                     ''2026-07-01T00:00:00'' None (Some ''mchen'') school))
           = announcements_collection school @ [d]
         \<and> doc_fields d ''created_by'' = Some ''mchen''
         \<and> ''start_date'' \<notin> dom (doc_fields d)"
    using c by auto
  from create_with_start_succeeds obtain r s' where
    eq: "create_announcement basic_lib ''2026-06-15T07:00:00'' oid3 ''Hello''
             ''2026-07-01T00:00:00'' (Some ''2026-06-20T00:00:00'') (Some ''mchen'') school
           = (Inr r, s')"
    by blast
  from created_record [OF eq] obtain d where
    "announcements_collection s' = announcements_collection school @ [d]"
    "doc_id d = oid3"
    "doc_fields d ''message'' = Some ''Hello''"
    "doc_fields d ''created_by'' = Some ''mchen''"
    "doc_fields d ''start_date'' = Some ''2026-06-20T00:00:00''"
    "r ''start_date'' = Some ''2026-06-20T00:00:00''"
    "r = render basic_lib d"
    by auto
  with eq have second:
    "\<exists>r s' d.
         create_announcement basic_lib ''2026-06-15T07:00:00'' oid3 ''Hello''
             ''2026-07-01T00:00:00'' (Some ''2026-06-20T00:00:00'') (Some ''mchen'') school
           = (Inr r, s')
         \<and> announcements_collection s' = announcements_collection school @ [d]
         \<and> doc_id d = oid3
         \<and> doc_fields d ''message'' = Some ''Hello''
         \<and> doc_fields d ''created_by'' = Some ''mchen''
         \<and> doc_fields d ''start_date'' = Some ''2026-06-20T00:00:00''
         \<and> r ''start_date'' = Some ''2026-06-20T00:00:00''
         \<and> r = render basic_lib d"
    by blast
  from c first second show ?thesis by blast
qed

section \<open>Update\<close>

lemma find_one_None_iff: "find_one q docs = None \<longleftrightarrow> (\<forall>d \<in> set docs. \<not> matches q d)"
  by (induction docs) auto

lemma find_one_Some_matches: "find_one q docs = Some d \<Longrightarrow> d \<in> set docs \<and> matches q d"
  by (induction docs) (auto split: if_splits)

lemma doc_id_apply_update: "doc_id (apply_update u d) = doc_id d"
  by (cases u) simp_all

lemma update_one_unmatched:
  "find_one q docs = None \<Longrightarrow>
   update_one q u docs = \<lparr>updated_docs = docs, matched_count = 0, modified_count = 0\<rparr>"
  by (induction docs) (auto simp: Let_def split: if_splits)

lemma update_one_matched:
  "find_one q docs = Some a \<Longrightarrow>
   matched_count (update_one q u docs) = 1
   \<and> modified_count (update_one q u docs) = (if changes u a then 1 else 0)"
  by (induction docs) (auto simp: Let_def split: if_splits)

lemma update_one_Id_eq:
  "find_one (Id_eq i) docs = Some a \<Longrightarrow>
   find_one (Id_eq i) (updated_docs (update_one (Id_eq i) u docs)) = Some (apply_update u a)"
  by (induction docs) (auto simp: Let_def doc_id_apply_update split: if_splits)

lemma update_one_doc_ids:
  "map doc_id (updated_docs (update_one q u docs)) = map doc_id docs"
  by (induction docs) (auto simp: Let_def doc_id_apply_update)

lemma update_one_others:
  "j \<noteq> i \<Longrightarrow>
   find_one (Id_eq j) (updated_docs (update_one (Id_eq i) u docs)) = find_one (Id_eq j) docs"
  by (induction docs) (auto simp: Let_def doc_id_apply_update)

lemma set_fields_update_data:
  "set_fields (update_data message expiration_date start_date) m
     = (if truthy start_date
        then m(''message'' \<mapsto> message, ''expiration_date'' \<mapsto> expiration_date,
               ''start_date'' := start_date)
        else m(''message'' \<mapsto> message, ''expiration_date'' \<mapsto> expiration_date))"
  by (cases start_date) (auto simp: update_data_def)

text \<open>
  Once the teacher check, the identifier, the lookup and the dates have passed, update
  succeeds, and this is the document it leaves in the store.
\<close>

lemma update_announcement_found:
  assumes u: "check_teacher teacher_username s = Inr u"
    and o: "ObjectId L announcement_id = Some obj_id"
    and old: "find_one (Id_eq obj_id) (announcements_collection s) = Some old"
    and dp: "dates_parse L expiration_date start_date"
  shows "\<exists>s'. update_announcement L announcement_id message expiration_date start_date
             teacher_username s
           = (Inr (render L (apply_update
                 (Set_fields (update_data message expiration_date start_date))
                 (if \<not> truthy start_date \<and> doc_fields old ''start_date'' \<noteq> None
                  then apply_update (Unset_field ''start_date'') old else old))), s')
         \<and> find_one (Id_eq obj_id) (announcements_collection s')
             = Some (apply_update
                 (Set_fields (update_data message expiration_date start_date))
                 (if \<not> truthy start_date \<and> doc_fields old ''start_date'' \<noteq> None
                  then apply_update (Unset_field ''start_date'') old else old))
         \<and> teachers_collection s' = teachers_collection s"
proof -
  define docs1 where "docs1 =
     (if truthy start_date then announcements_collection s
      else if doc_fields old ''start_date'' \<noteq> None
      then updated_docs (update_one (Id_eq obj_id) (Unset_field ''start_date'')
             (announcements_collection s))
      else announcements_collection s)"
  define old1 where "old1 =
     (if \<not> truthy start_date \<and> doc_fields old ''start_date'' \<noteq> None
      then apply_update (Unset_field ''start_date'') old else old)"
  have f1: "find_one (Id_eq obj_id) docs1 = Some old1"
    using old by (simp add: docs1_def old1_def update_one_Id_eq)
  define result where "result =
     update_one (Id_eq obj_id)
       (Set_fields (update_data message expiration_date start_date)) docs1"
  have m: "matched_count result = 1"
    and f2: "find_one (Id_eq obj_id) (updated_docs result)
               = Some (apply_update
                   (Set_fields (update_data message expiration_date start_date)) old1)"
    using f1 by (simp_all add: result_def update_one_matched update_one_Id_eq)
  have "update_announcement L announcement_id message expiration_date start_date
             teacher_username s
          = (Inr (render L (apply_update
                   (Set_fields (update_data message expiration_date start_date)) old1)),
             s\<lparr>announcements_collection := updated_docs result\<rparr>)"
    using u o old dp m f2
    by (simp add: update_announcement_def Let_def docs1_def [symmetric]
          result_def [symmetric])
  with f2 show ?thesis
    unfolding old1_def by simp
qed

lemma update_announcement_Inr:
  assumes "update_announcement L announcement_id message expiration_date start_date
             teacher_username s = (Inr r, s')"
  shows "\<exists>u obj_id old.
           check_teacher teacher_username s = Inr u
           \<and> ObjectId L announcement_id = Some obj_id
           \<and> find_one (Id_eq obj_id) (announcements_collection s) = Some old
           \<and> dates_parse L expiration_date start_date
           \<and> find_one (Id_eq obj_id) (announcements_collection s')
               = Some (apply_update
                         (Set_fields (update_data message expiration_date start_date))
                         (if \<not> truthy start_date \<and> doc_fields old ''start_date'' \<noteq> None
                          then apply_update (Unset_field ''start_date'') old else old))
           \<and> r = render L (apply_update
                         (Set_fields (update_data message expiration_date start_date))
                         (if \<not> truthy start_date \<and> doc_fields old ''start_date'' \<noteq> None
                          then apply_update (Unset_field ''start_date'') old else old))
           \<and> teachers_collection s' = teachers_collection s"
proof -
  from assms obtain u where u: "check_teacher teacher_username s = Inr u"
    by (auto simp: update_announcement_def split: sum.splits)
  with assms obtain obj_id where o: "ObjectId L announcement_id = Some obj_id"
    by (auto simp: update_announcement_def split: option.splits)
  with assms u obtain old where
    old: "find_one (Id_eq obj_id) (announcements_collection s) = Some old"
    by (auto simp: update_announcement_def split: option.splits)
  with assms u o have dp: "dates_parse L expiration_date start_date"
    by (auto simp: update_announcement_def split: if_splits)
  from update_announcement_found [OF u o old dp, of message] assms u o old dp
  show ?thesis by auto
qed

text \<open>
  C7 says that update sets \<^verbatim>\<open>start_date\<close> when the request supplies one. The handler sets
  it under \<^verbatim>\<open>if start_date\<close> only: when the request supplies the empty string, the
  field is not set to it, and the \<^verbatim>\<open>start_date\<close> the record had is removed.
\<close>

theorem empty_start_date_update_counterexample:
  "doc_fields exams ''start_date'' = Some ''2026-06-01T00:00:00''
   \<and> (case fst (update_announcement basic_lib oid1 ''Exams start Tuesday''
                  ''2026-07-01T00:00:00'' (Some '''') (Some ''mchen'') school) of
         Inl e \<Rightarrow> False
       | Inr r \<Rightarrow> r ''start_date'' = None \<and> r ''start_date'' \<noteq> Some ''''
                  \<and> r ''message'' = Some ''Exams start Tuesday'')"
  using basic_parses_0701
  by (simp add: update_announcement_def check_teacher_mchen basic_ObjectId_oid1 find_exams
        dates_parse_iff Let_def update_data_def)
     (simp add: school_def exams_def picnic_def render_def)

text \<open>
  C7, amended. When update succeeds, the record with the given identifier has
  \<^verbatim>\<open>message\<close> and \<^verbatim>\<open>expiration_date\<close> as supplied; when a non-empty \<^verbatim>\<open>start_date\<close>
  is supplied the record has it; when \<^verbatim>\<open>start_date\<close> is not supplied or is empty the
  record has no \<^verbatim>\<open>start_date\<close> field afterwards, the one it had being removed; its other
  fields are as they were, and the response is the record as it is in the store after the
  update, with its \<^verbatim>\<open>_id\<close> rendered as a string.
\<close>

theorem updated_record:
  assumes "update_announcement L announcement_id message expiration_date start_date
             teacher_username s = (Inr r, s')"
  shows "\<exists>obj_id old new.
           ObjectId L announcement_id = Some obj_id
           \<and> find_one (Id_eq obj_id) (announcements_collection s) = Some old
           \<and> find_one (Id_eq obj_id) (announcements_collection s') = Some new
           \<and> doc_fields new ''message'' = Some message
           \<and> doc_fields new ''expiration_date'' = Some expiration_date
           \<and> (\<forall>sd. start_date = Some sd \<and> sd \<noteq> [] \<longrightarrow> doc_fields new ''start_date'' = Some sd)
           \<and> (start_date = None \<or> start_date = Some []
                \<longrightarrow> ''start_date'' \<notin> dom (doc_fields new))
           \<and> (\<forall>f. f \<notin> {''message'', ''expiration_date'', ''start_date''}
                \<longrightarrow> doc_fields new f = doc_fields old f)
           \<and> teachers_collection s' = teachers_collection s
           \<and> r = render L new"
proof -
  from update_announcement_Inr [OF assms] obtain obj_id old where
    o: "ObjectId L announcement_id = Some obj_id"
    and old: "find_one (Id_eq obj_id) (announcements_collection s) = Some old"
    and new: "find_one (Id_eq obj_id) (announcements_collection s')
               = Some (apply_update
                         (Set_fields (update_data message expiration_date start_date))
                         (if \<not> truthy start_date \<and> doc_fields old ''start_date'' \<noteq> None
                          then apply_update (Unset_field ''start_date'') old else old))"
    and r: "r = render L (apply_update
                         (Set_fields (update_data message expiration_date start_date))
                         (if \<not> truthy start_date \<and> doc_fields old ''start_date'' \<noteq> None
                          then apply_update (Unset_field ''start_date'') old else old))"
    and t: "teachers_collection s' = teachers_collection s"
    by blast
  let ?new = "apply_update
                (Set_fields (update_data message expiration_date start_date))
                (if \<not> truthy start_date \<and> doc_fields old ''start_date'' \<noteq> None
                 then apply_update (Unset_field ''start_date'') old else old)"
  have "doc_fields ?new ''message'' = Some message"
    and "doc_fields ?new ''expiration_date'' = Some expiration_date"
    by (simp_all add: set_fields_update_data)
  moreover have "\<forall>sd. start_date = Some sd \<and> sd \<noteq> []
                   \<longrightarrow> doc_fields ?new ''start_date'' = Some sd"
    by (simp add: set_fields_update_data)
  moreover have "start_date = None \<or> start_date = Some []
                \<longrightarrow> ''start_date'' \<notin> dom (doc_fields ?new)"
    by (auto simp: set_fields_update_data domIff)
  moreover have "\<forall>f. f \<notin> {''message'', ''expiration_date'', ''start_date''}
                \<longrightarrow> doc_fields ?new f = doc_fields old f"
    by (simp add: set_fields_update_data)
  ultimately show ?thesis
    using o old new r t by blast
qed

lemma update_exams_succeeds:
  "\<exists>r s'. update_announcement basic_lib oid1 ''Exams start Tuesday'' ''2026-07-01T00:00:00''
             None (Some ''mchen'') school = (Inr r, s')"
  using basic_parses_0701
  by (simp add: update_announcement_def check_teacher_mchen basic_ObjectId_oid1 find_exams
        dates_parse_iff Let_def update_data_def)
     (simp add: school_def exams_def picnic_def)

theorem updated_record_witness:
  "doc_fields exams ''start_date'' = Some ''2026-06-01T00:00:00''
   \<and> (\<exists>r s' new.
         update_announcement basic_lib oid1 ''Exams start Tuesday'' ''2026-07-01T00:00:00''
             None (Some ''mchen'') school = (Inr r, s')
         \<and> find_one (Id_eq oid1) (announcements_collection s') = Some new
         \<and> doc_fields new ''message'' = Some ''Exams start Tuesday''
         \<and> doc_fields new ''expiration_date'' = Some ''2026-07-01T00:00:00''
         \<and> ''start_date'' \<notin> dom (doc_fields new)
         \<and> doc_fields new ''created_by'' = Some ''mrodriguez''
         \<and> r = render basic_lib new)"
proof -
  from update_exams_succeeds obtain r s' where
    eq: "update_announcement basic_lib oid1 ''Exams start Tuesday'' ''2026-07-01T00:00:00''
             None (Some ''mchen'') school = (Inr r, s')"
    by blast
  from updated_record [OF eq] obtain obj_id old new where
    o: "ObjectId basic_lib oid1 = Some obj_id"
    and old: "find_one (Id_eq obj_id) (announcements_collection school) = Some old"
    and new: "find_one (Id_eq obj_id) (announcements_collection s') = Some new"
    and m: "doc_fields new ''message'' = Some ''Exams start Tuesday''"
    and e: "doc_fields new ''expiration_date'' = Some ''2026-07-01T00:00:00''"
    and sd: "(None::string option) = None \<or> (None::string option) = Some []
              \<longrightarrow> ''start_date'' \<notin> dom (doc_fields new)"
    and rest: "\<forall>f. f \<notin> {''message'', ''expiration_date'', ''start_date''}
              \<longrightarrow> doc_fields new f = doc_fields old f"
    and r: "r = render basic_lib new"
    by blast
  from o have [simp]: "obj_id = oid1" by (simp add: basic_ObjectId_oid1)
  from old have [simp]: "old = exams" by (simp add: find_exams)
  from rest have "doc_fields new ''created_by'' = doc_fields exams ''created_by''"
    by simp
  moreover from sd have "''start_date'' \<notin> dom (doc_fields new)" by simp
  moreover note new m e r
  moreover have "doc_fields exams ''created_by'' = Some ''mrodriguez''"
    "doc_fields exams ''start_date'' = Some ''2026-06-01T00:00:00''"
    by (simp_all add: exams_def)
  ultimately show ?thesis using eq by auto
qed

text \<open>
  C9. Update never takes its internal-error branch: once the record has been found, the
  final \<^verbatim>\<open>update_one\<close> on the same identifier matches it, whether or not the
  \<^verbatim>\<open>start_date\<close> was removed in between and whether or not any field changes, so
  \<^verbatim>\<open>matched_count\<close> is not zero. In the model no other request runs between the lookup
  and the update. The read after the update finds the record as well.
\<close>

theorem update_never_internal_error:
  "fst (update_announcement L announcement_id message expiration_date start_date
          teacher_username s)
     \<noteq> Inl (HTTPException 500 ''Failed to update announcement'')
   \<and> fst (update_announcement L announcement_id message expiration_date start_date
            teacher_username s) \<noteq> Inl TypeError"
proof (cases "check_teacher teacher_username s")
  case (Inl e)
  then have "e = HTTPException 401 ''Authentication required for this action''
             \<or> e = HTTPException 401 ''Invalid teacher credentials''"
    by (auto simp: check_teacher_def split: if_splits option.splits)
  with Inl show ?thesis
    by (auto simp: update_announcement_def)
next
  case (Inr u)
  show ?thesis
  proof (cases "ObjectId L announcement_id")
    case None
    with Inr show ?thesis by (simp add: update_announcement_def)
  next
    case (Some obj_id)
    show ?thesis
    proof (cases "find_one (Id_eq obj_id) (announcements_collection s)")
      case None
      with Inr Some show ?thesis by (simp add: update_announcement_def)
    next
      case found: (Some old)
      show ?thesis
      proof (cases "dates_parse L expiration_date start_date")
        case False
        with Inr Some found show ?thesis by (simp add: update_announcement_def)
      next
        case True
        from update_announcement_found [OF Inr Some found True, of message]
        obtain s' where
          "update_announcement L announcement_id message expiration_date start_date
             teacher_username s
           = (Inr (render L (apply_update
                 (Set_fields (update_data message expiration_date start_date))
                 (if \<not> truthy start_date \<and> doc_fields old ''start_date'' \<noteq> None
                  then apply_update (Unset_field ''start_date'') old else old))), s')"
          by blast
        then show ?thesis by simp
      qed
    qed
  qed
qed

lemma basic_ObjectId_oid2: "ObjectId basic_lib oid2 = Some oid2"
  by (simp add: basic_lib_def hex_ObjectId_def oid2_def is_hex_digit_def lower_hex_def
        is_space_def)

lemma find_picnic: "find_one (Id_eq oid2) (announcements_collection school) = Some picnic"
  by (simp add: school_def exams_def picnic_def oid1_def oid2_def)

lemma basic_parses_picnic:
  "fromisoformat basic_lib (replace_Z ''2026-06-15T10:00:00+05:00'') \<noteq> None"
  by (simp add: basic_lib_def replace_Z_def basic_fromisoformat_def parse_offset_def
        days_in_month_def is_leap_def)

theorem update_never_internal_error_witness:
  "matched_count (update_one (Id_eq oid2)
       (Set_fields (update_data ''School picnic'' ''2026-06-15T10:00:00+05:00'' None))
       (announcements_collection school)) = 1
   \<and> modified_count (update_one (Id_eq oid2)
       (Set_fields (update_data ''School picnic'' ''2026-06-15T10:00:00+05:00'' None))
       (announcements_collection school)) = 0
   \<and> \<not> isl (fst (update_announcement basic_lib oid2 ''School picnic''
                    ''2026-06-15T10:00:00+05:00'' None (Some ''mchen'') school))
   \<and> fst (update_announcement basic_lib oid2 ''School picnic''
            ''2026-06-15T10:00:00+05:00'' None (Some ''mchen'') school)
       \<noteq> Inl (HTTPException 500 ''Failed to update announcement'')"
proof -
  have "changes (Set_fields (update_data ''School picnic'' ''2026-06-15T10:00:00+05:00'' None))
          picnic = False"
    by (simp add: update_data_def picnic_def)
  then have "matched_count (update_one (Id_eq oid2)
       (Set_fields (update_data ''School picnic'' ''2026-06-15T10:00:00+05:00'' None))
       (announcements_collection school)) = 1
   \<and> modified_count (update_one (Id_eq oid2)
       (Set_fields (update_data ''School picnic'' ''2026-06-15T10:00:00+05:00'' None))
       (announcements_collection school)) = 0"
    using update_one_matched [OF find_picnic] by simp
  moreover from update_announcement_found [OF check_teacher_mchen basic_ObjectId_oid2 find_picnic,
       of "''2026-06-15T10:00:00+05:00''" None "''School picnic''"] basic_parses_picnic
  have "\<not> isl (fst (update_announcement basic_lib oid2 ''School picnic''
                    ''2026-06-15T10:00:00+05:00'' None (Some ''mchen'') school))"
    by (auto simp: dates_parse_iff)
  ultimately show ?thesis
    using update_never_internal_error [of basic_lib oid2 "''School picnic''"
        "''2026-06-15T10:00:00+05:00''" None "Some ''mchen''" school]
    by simp
qed

section \<open>Delete\<close>

lemma delete_one_unmatched:
  "find_one q docs = None \<Longrightarrow>
   delete_one q docs = \<lparr>remaining_docs = docs, deleted_count = 0\<rparr>"
  by (induction docs) (auto simp: Let_def split: if_splits)

lemma delete_one_matched:
  "find_one q docs = Some d \<Longrightarrow>
   deleted_count (delete_one q docs) = 1
   \<and> mset (remaining_docs (delete_one q docs)) = mset docs - {#d#}"
proof (induction docs)
  case Nil
  then show ?case by simp
next
  case (Cons a docs)
  show ?case
  proof (cases "matches q a")
    case True
    with Cons.prems show ?thesis by simp
  next
    case False
    with Cons.prems have f: "find_one q docs = Some d" by simp
    then have "d \<in># mset docs"
      using find_one_Some_matches by fastforce
    with Cons.IH [OF f] False show ?thesis
      by (simp add: Let_def)
  qed
qed

lemma delete_one_distinct:
  "distinct (map doc_id docs) \<Longrightarrow>
   find_one (Id_eq i) (remaining_docs (delete_one (Id_eq i) docs)) = None"
  by (induction docs) (auto simp: Let_def find_one_None_iff image_iff)

lemma check_teacher_cong:
  "teachers_collection s' = teachers_collection s \<Longrightarrow>
   check_teacher teacher_username s' = check_teacher teacher_username s"
  by (simp add: check_teacher_def split: option.splits)

lemma delete_announcement_absent:
  assumes "check_teacher teacher_username s = Inr u"
    and "ObjectId L announcement_id = Some obj_id"
    and "find_one (Id_eq obj_id) (announcements_collection s) = None"
  shows "delete_announcement L announcement_id teacher_username s
           = (Inl (HTTPException 404 ''Announcement not found''), s)"
proof -
  have "delete_one (Id_eq obj_id) (announcements_collection s)
          = \<lparr>remaining_docs = announcements_collection s, deleted_count = 0\<rparr>"
    using assms(3) by (rule delete_one_unmatched)
  with assms(1,2) show ?thesis
    by (simp add: delete_announcement_def Let_def)
qed

text \<open>
  The store keeps \<^verbatim>\<open>_id\<close> unique within a collection, and the three handlers that write
  leave it so.
\<close>

lemma delete_one_subset:
  "set (remaining_docs (delete_one q docs)) \<subseteq> set docs"
  by (induction docs) (auto simp: Let_def)

lemma delete_one_keeps_distinct:
  "distinct (map doc_id docs) \<Longrightarrow> distinct (map doc_id (remaining_docs (delete_one q docs)))"
proof (induction docs)
  case Nil
  then show ?case by simp
next
  case (Cons a docs)
  then show ?case
    using delete_one_subset [of q docs] by (auto simp: Let_def)
qed

lemma ids_stay_distinct:
  assumes "distinct (map doc_id (announcements_collection s))"
  shows "distinct (map doc_id (announcements_collection
           (snd (create_announcement L utcnow inserted_id message expiration_date start_date
                   teacher_username s))))"
    and "distinct (map doc_id (announcements_collection
           (snd (update_announcement L announcement_id message expiration_date start_date
                   teacher_username s))))"
    and "distinct (map doc_id (announcements_collection
           (snd (delete_announcement L announcement_id teacher_username s))))"
proof -
  show "distinct (map doc_id (announcements_collection
           (snd (create_announcement L utcnow inserted_id message expiration_date start_date
                   teacher_username s))))"
    using assms
    by (auto simp: create_announcement_def insert_one_def Let_def split: sum.splits)
  show "distinct (map doc_id (announcements_collection
           (snd (update_announcement L announcement_id message expiration_date start_date
                   teacher_username s))))"
    using assms
    by (auto simp: update_announcement_def Let_def update_one_doc_ids
             split: sum.splits option.splits)
  show "distinct (map doc_id (announcements_collection
           (snd (delete_announcement L announcement_id teacher_username s))))"
    using assms
    by (auto simp: delete_announcement_def Let_def delete_one_keeps_distinct
             split: sum.splits option.splits)
qed

text \<open>
  C8. For a delete request that passes the teacher check: when the identifier is not a
  valid key, the handler fails with status 400 and the format detail; otherwise it calls
  \<^verbatim>\<open>delete_one\<close> without looking the record up first: when no record has the key, nothing
  is removed and the handler fails with status 404; when a record has the key, that record
  is removed, the rest of the collection and the teachers are as they were, and the
  confirmation message is returned. Keys being unique in the collection, the record is
  then gone, and deleting the same identifier again fails with status 404.
\<close>

theorem delete_outcomes:
  assumes "check_teacher teacher_username s = Inr u"
  shows "(ObjectId L announcement_id = None \<longrightarrow>
            delete_announcement L announcement_id teacher_username s
              = (Inl (HTTPException 400 ''Invalid announcement ID format''), s))
         \<and> (\<forall>obj_id. ObjectId L announcement_id = Some obj_id \<longrightarrow>
              (find_one (Id_eq obj_id) (announcements_collection s) = None \<longrightarrow>
                 delete_announcement L announcement_id teacher_username s
                   = (Inl (HTTPException 404 ''Announcement not found''), s))
              \<and> (\<forall>d. find_one (Id_eq obj_id) (announcements_collection s) = Some d \<longrightarrow>
                   (\<exists>s'. delete_announcement L announcement_id teacher_username s
                            = (Inr [''message'' \<mapsto> ''Announcement deleted successfully''], s')
                        \<and> teachers_collection s' = teachers_collection s
                        \<and> mset (announcements_collection s')
                            = mset (announcements_collection s) - {#d#}
                        \<and> (distinct (map doc_id (announcements_collection s)) \<longrightarrow>
                             find_one (Id_eq obj_id) (announcements_collection s') = None
                             \<and> delete_announcement L announcement_id teacher_username s'
                                 = (Inl (HTTPException 404 ''Announcement not found''), s')))))"
proof (intro conjI allI impI)
  assume "ObjectId L announcement_id = None"
  with assms show "delete_announcement L announcement_id teacher_username s
              = (Inl (HTTPException 400 ''Invalid announcement ID format''), s)"
    by (simp add: delete_announcement_def)
next
  fix obj_id
  assume "ObjectId L announcement_id = Some obj_id"
    and "find_one (Id_eq obj_id) (announcements_collection s) = None"
  with assms show "delete_announcement L announcement_id teacher_username s
                   = (Inl (HTTPException 404 ''Announcement not found''), s)"
    by (rule delete_announcement_absent)
next
  fix obj_id d
  assume o: "ObjectId L announcement_id = Some obj_id"
    and d: "find_one (Id_eq obj_id) (announcements_collection s) = Some d"
  let ?s' = "s\<lparr>announcements_collection :=
                remaining_docs (delete_one (Id_eq obj_id) (announcements_collection s))\<rparr>"
  have eq: "delete_announcement L announcement_id teacher_username s
              = (Inr [''message'' \<mapsto> ''Announcement deleted successfully''], ?s')"
    using assms o delete_one_matched [OF d]
    by (simp add: delete_announcement_def Let_def)
  have t: "teachers_collection ?s' = teachers_collection s" by simp
  have m: "mset (announcements_collection ?s') = mset (announcements_collection s) - {#d#}"
    using delete_one_matched [OF d] by simp
  have again: "distinct (map doc_id (announcements_collection s)) \<longrightarrow>
                 find_one (Id_eq obj_id) (announcements_collection ?s') = None
                 \<and> delete_announcement L announcement_id teacher_username ?s'
                     = (Inl (HTTPException 404 ''Announcement not found''), ?s')"
  proof
    assume "distinct (map doc_id (announcements_collection s))"
    then have gone: "find_one (Id_eq obj_id) (announcements_collection ?s') = None"
      by (simp add: delete_one_distinct)
    moreover from assms check_teacher_cong [of ?s' s teacher_username]
    have "check_teacher teacher_username ?s' = Inr u"
      by simp
    ultimately show "find_one (Id_eq obj_id) (announcements_collection ?s') = None
                 \<and> delete_announcement L announcement_id teacher_username ?s'
                     = (Inl (HTTPException 404 ''Announcement not found''), ?s')"
      using o delete_announcement_absent [of teacher_username ?s' u L announcement_id obj_id]
      by blast
  qed
  from eq t m again
  show "\<exists>s'. delete_announcement L announcement_id teacher_username s
                            = (Inr [''message'' \<mapsto> ''Announcement deleted successfully''], s')
                        \<and> teachers_collection s' = teachers_collection s
                        \<and> mset (announcements_collection s')
                            = mset (announcements_collection s) - {#d#}
                        \<and> (distinct (map doc_id (announcements_collection s)) \<longrightarrow>
                             find_one (Id_eq obj_id) (announcements_collection s') = None
                             \<and> delete_announcement L announcement_id teacher_username s'
                                 = (Inl (HTTPException 404 ''Announcement not found''), s'))"
    by blast
qed


lemma school_ids_distinct: "distinct (map doc_id (announcements_collection school))"
  by (simp add: school_def exams_def picnic_def oid1_def oid2_def)

lemma basic_ObjectId_invalid: "ObjectId basic_lib ''not-a-valid-id'' = None"
  by (simp add: basic_lib_def hex_ObjectId_def)

theorem delete_outcomes_witness:
  "check_teacher (Some ''mchen'') school = Inr ''mchen''
   \<and> ObjectId basic_lib ''not-a-valid-id'' = None
   \<and> delete_announcement basic_lib ''not-a-valid-id'' (Some ''mchen'') school
       = (Inl (HTTPException 400 ''Invalid announcement ID format''), school)
   \<and> ObjectId basic_lib oid1 = Some oid1
   \<and> find_one (Id_eq oid1) (announcements_collection school) = Some exams
   \<and> distinct (map doc_id (announcements_collection school))
   \<and> (\<exists>s'. delete_announcement basic_lib oid1 (Some ''mchen'') school
              = (Inr [''message'' \<mapsto> ''Announcement deleted successfully''], s')
          \<and> mset (announcements_collection s') = {#picnic#}
          \<and> find_one (Id_eq oid1) (announcements_collection s') = None
          \<and> delete_announcement basic_lib oid1 (Some ''mchen'') s'
              = (Inl (HTTPException 404 ''Announcement not found''), s'))"
proof -
  note d = delete_outcomes [OF check_teacher_mchen, of basic_lib]
  from d [of "''not-a-valid-id''"] basic_ObjectId_invalid
  have a: "delete_announcement basic_lib ''not-a-valid-id'' (Some ''mchen'') school
       = (Inl (HTTPException 400 ''Invalid announcement ID format''), school)"
    by blast
  from d [of oid1] basic_ObjectId_oid1 find_exams school_ids_distinct
  obtain s' where
    "delete_announcement basic_lib oid1 (Some ''mchen'') school
       = (Inr [''message'' \<mapsto> ''Announcement deleted successfully''], s')"
    "mset (announcements_collection s') = mset (announcements_collection school) - {#exams#}"
    "find_one (Id_eq oid1) (announcements_collection s') = None"
    "delete_announcement basic_lib oid1 (Some ''mchen'') s'
       = (Inl (HTTPException 404 ''Announcement not found''), s')"
    by blast
  moreover have "mset (announcements_collection school) - {#exams#} = {#picnic#}"
    by (simp add: school_def)
  ultimately show ?thesis
    using a check_teacher_mchen basic_ObjectId_invalid basic_ObjectId_oid1 find_exams
      school_ids_distinct
    by auto
qed

section \<open>String order and time order\<close>

text \<open>
  C10. Whether an announcement is in the public list is decided by comparing the stored
  \<^verbatim>\<open>start_date\<close> and \<^verbatim>\<open>expiration_date\<close> strings with the string
  \<^verbatim>\<open>datetime.utcnow().isoformat()\<close>, which carries no zone, in the order of strings, for
  every collection and every time; the instants that the strings denote are not compared.
  In the town's collection at 07:00 UTC the two disagree in both directions. The picnic
  announcement, whose \<^verbatim>\<open>expiration_date\<close> ends in \<^verbatim>\<open>+05:00\<close>, expired at 05:00 UTC and
  is listed, because its string is the greater one. The concert announcement expires at
  11:00 UTC and is not listed, because its string is the smaller one.
\<close>

theorem string_order_is_not_time_order:
  "(\<exists>ds. fst (get_active_announcements L now s) = Inr (map (render L) ds)
       \<and> set ds =
           {d \<in> set (announcements_collection s).
              (doc_fields d ''start_date'' = None
                 \<or> (\<exists>sd :: string. doc_fields d ''start_date'' = Some sd \<and> sd \<le> now))
              \<and> (\<exists>e :: string. doc_fields d ''expiration_date'' = Some e \<and> now \<le> e)})
   \<and> set (announcements_collection town) = {exams, picnic, concert}
   \<and> fst (get_active_announcements basic_lib ''2026-06-15T07:00:00'' town)
       = Inr [render basic_lib picnic, render basic_lib exams]
   \<and> render basic_lib concert \<notin> set [render basic_lib picnic, render basic_lib exams]
   \<and> doc_fields picnic ''expiration_date'' = Some ''2026-06-15T10:00:00+05:00''
   \<and> drop 19 ''2026-06-15T10:00:00+05:00'' = ''+05:00''
   \<and> doc_fields concert ''expiration_date'' = Some ''2026-06-15T06:00:00-05:00''
   \<and> doc_fields concert ''start_date'' = None
   \<and> instant ''2026-06-15T07:00:00'' = Some 1781506800
   \<and> instant ''2026-06-15T10:00:00+05:00'' = Some 1781499600
   \<and> instant ''2026-06-15T06:00:00-05:00'' = Some 1781521200
   \<and> (1781499600 :: int) < 1781506800
   \<and> (1781506800 :: int) < 1781521200
   \<and> ''2026-06-15T07:00:00'' \<le> ''2026-06-15T10:00:00+05:00''
   \<and> ''2026-06-15T06:00:00-05:00'' < ''2026-06-15T07:00:00''"
proof -
  let ?ds = "sort_desc ''created_at''
               (find_docs (active_query now) (announcements_collection s))"
  have "fst (get_active_announcements L now s) = Inr (map (render L) ?ds)"
    by (simp add: get_active_announcements_def)
  moreover have "set ?ds =
           {d \<in> set (announcements_collection s).
              (doc_fields d ''start_date'' = None
                 \<or> (\<exists>sd :: string. doc_fields d ''start_date'' = Some sd \<and> sd \<le> now))
              \<and> (\<exists>e :: string. doc_fields d ''expiration_date'' = Some e \<and> now \<le> e)}"
    by (simp add: set_sort_desc find_docs_def matches_active_query)
  ultimately have general: "\<exists>ds. fst (get_active_announcements L now s) = Inr (map (render L) ds)
       \<and> set ds =
           {d \<in> set (announcements_collection s).
              (doc_fields d ''start_date'' = None
                 \<or> (\<exists>sd :: string. doc_fields d ''start_date'' = Some sd \<and> sd \<le> now))
              \<and> (\<exists>e :: string. doc_fields d ''expiration_date'' = Some e \<and> now \<le> e)}"
    by blast
  have "set (announcements_collection town) = {exams, picnic, concert}"
    by (simp add: town_def)
  moreover have "fst (get_active_announcements basic_lib ''2026-06-15T07:00:00'' town)
       = Inr [render basic_lib picnic, render basic_lib exams]"
    by (simp add: get_active_announcements_def active_town_0700 sort_school)
  moreover have "doc_fields picnic ''expiration_date'' = Some ''2026-06-15T10:00:00+05:00''"
    by (simp add: picnic_def)
  moreover have "doc_fields concert ''expiration_date'' = Some ''2026-06-15T06:00:00-05:00''"
    and "doc_fields concert ''start_date'' = None"
    by (simp_all add: concert_def)
  ultimately show ?thesis
    using general concert_not_rendered by (simp add: instants_0615)
qed

end
